theory Spec2Isabelle
  imports Complex_Main "HOL-Library.Multiset"
begin

section \<open>Data model of \<^verbatim>\<open>hypothesis_testing.py\<close>\<close>

text \<open>
  The script works on NumPy double-precision values. A value is either a finite number or
  one of the three special values that \<^verbatim>\<open>np.isfinite\<close> rejects. Finite values are
  modelled as reals: the script itself only compares and filters them (no rounding is
  involved in a comparison). The one division it performs (the Bonferroni threshold) rounds,
  and is a parameter of the model (\<open>truediv\<close> below).
\<close>

datatype pyfloat = Fin real | PInf | NInf | NaN

fun isfinite :: "pyfloat \<Rightarrow> bool" where
  "isfinite (Fin x) = True"
| "isfinite PInf = False"
| "isfinite NInf = False"
| "isfinite NaN = False"

text \<open>
  The IEEE comparison \<^verbatim>\<open>a < b\<close>: every comparison with NaN is false. The source's
  \<^verbatim>\<open>a > b\<close> is \<open>fless b a\<close>.
\<close>

fun fless :: "pyfloat \<Rightarrow> pyfloat \<Rightarrow> bool" where
  "fless NaN b = False"
| "fless a NaN = False"
| "fless (Fin x) (Fin y) = (x < y)"
| "fless (Fin x) PInf = True"
| "fless (Fin x) NInf = False"
| "fless PInf b = False"
| "fless NInf NInf = False"
| "fless NInf b = True"

definition fgreater :: "pyfloat \<Rightarrow> pyfloat \<Rightarrow> bool" where
  "fgreater a b = fless b a"

text \<open>
  Exceptions. The script has no \<^verbatim>\<open>raise\<close> and no \<^verbatim>\<open>try\<close> of its own: an exception
  is either raised inside one of the SciPy / statsmodels routines it calls
  (\<open>LibraryError\<close>, with the routine's message) or by the Python operations the script
  applies to their results (\<open>IndexError\<close> for \<^verbatim>\<open>[-1]\<close> or \<^verbatim>\<open>[i]\<close> out of range,
  \<open>ZeroDivisionError\<close> for the Bonferroni division, \<open>KeyError\<close> for \<^verbatim>\<open>.loc\<close>), and
  in every case it leaves the function that is running.
\<close>

datatype error = LibraryError string | IndexError | ZeroDivisionError | KeyError string

text \<open>One row of the data frame: the three columns the script reads.\<close>

record observation =
  points :: pyfloat
  rider_class :: string
  stage_class :: string

type_synonym dataframe = "observation list"

text \<open>One row of the table \<^verbatim>\<open>anova_lm\<close> returns, and the table, indexed by row label.\<close>

record anova_row =
  sum_sq :: pyfloat
  df_col :: pyfloat
  F_col :: pyfloat
  PR_F :: pyfloat

type_synonym anova_table = "(string \<times> anova_row) list"

text \<open>One row of the table \<^verbatim>\<open>pairwise_tukeyhsd\<close> prints: the two labels, the adjusted
  p-value and the reject flag.\<close>

type_synonym tukey_row = "string \<times> string \<times> pyfloat \<times> bool"

text \<open>
  The statistical routines are imported from SciPy and statsmodels; they are not code of
  this repository. The model takes them as parameters, so that every theorem below holds
  for whatever these routines compute. Each of them may raise.
  \<^item> \<open>shapiro\<close>, \<open>levene\<close>, \<open>f_oneway\<close>, \<open>kruskal\<close>, \<open>mannwhitneyu\<close> return a
    statistic and a p-value; \<open>mannwhitneyu\<close> takes the two samples and the keyword
    \<^verbatim>\<open>alternative\<close>;
  \<^item> \<open>anderson\<close> returns a statistic and the list \<^verbatim>\<open>critical_values\<close> (SciPy orders it
    by the significance levels 15\%, 10\%, 5\%, 2.5\%, 1\%);
  \<^item> \<open>pairwise_tukeyhsd\<close> takes the values, their labels and alpha;
  \<^item> \<open>anova_lm_ols formula typ df\<close> stands for
    \<^verbatim>\<open>anova_lm(ols(formula, data=df).fit(), typ=typ)\<close>.

  The record also carries the division of a double by a non-zero Python integer
  (\<open>truediv x n\<close> for \<^verbatim>\<open>x / n\<close>): the interpreter rounds the quotient to a double, so
  the threshold the script compares with is that double and not the real quotient. The
  model takes the rounded division as it is given, like the routines.
\<close>

record stats_lib =
  shapiro :: "pyfloat list \<Rightarrow> error + pyfloat \<times> pyfloat"
  anderson :: "pyfloat list \<Rightarrow> error + pyfloat \<times> pyfloat list"
  levene :: "pyfloat list list \<Rightarrow> error + pyfloat \<times> pyfloat"
  f_oneway :: "pyfloat list list \<Rightarrow> error + pyfloat \<times> pyfloat"
  kruskal :: "pyfloat list list \<Rightarrow> error + pyfloat \<times> pyfloat"
  mannwhitneyu :: "pyfloat list \<Rightarrow> pyfloat list \<Rightarrow> string \<Rightarrow> error + pyfloat \<times> pyfloat"
  pairwise_tukeyhsd :: "pyfloat list \<Rightarrow> string list \<Rightarrow> pyfloat \<Rightarrow> error + tukey_row list"
  anova_lm_ols :: "string \<Rightarrow> nat \<Rightarrow> dataframe \<Rightarrow> error + anova_table"
  truediv :: "pyfloat \<Rightarrow> nat \<Rightarrow> pyfloat"

section \<open>The assumption checks\<close>

text \<open>
  The dictionary \<^verbatim>\<open>test_normality\<close> returns. The key \<^verbatim>\<open>critical_value\<close> exists only
  in the Anderson-Darling dictionary (\<open>None\<close>: the key is absent); \<^verbatim>\<open>p_value\<close> is
  Python's \<^verbatim>\<open>None\<close> there.
\<close>

record normality_verdict =
  nv_test :: string
  nv_statistic :: pyfloat
  nv_critical_value :: "pyfloat option"
  nv_p_value :: "pyfloat option"
  nv_is_normal :: bool
  nv_alpha :: pyfloat

text \<open>The default \<^verbatim>\<open>alpha=0.05\<close> of both checks, and the literal \<^verbatim>\<open>0.05\<close> of the
  significance decisions.\<close>

definition alpha_default :: pyfloat where
  "alpha_default = Fin 0.05"

text \<open>
  \<^verbatim>\<open>test_normality(data, alpha)\<close>, lines 46 to 87. The result is an exception, Python's
  \<^verbatim>\<open>None\<close>, or a dictionary. \<^verbatim>\<open>result.critical_values[-1]\<close> is the last entry and
  raises IndexError on an empty array.
\<close>

definition test_normality :: "stats_lib \<Rightarrow> pyfloat list \<Rightarrow> pyfloat \<Rightarrow> error + normality_verdict option" where
  "test_normality lib data alpha =
     (if length data > 5000 then
        (case anderson lib data of
           Inl e \<Rightarrow> Inl e
         | Inr (stat, cvs) \<Rightarrow>
             (if cvs = [] then Inl IndexError
              else Inr (Some \<lparr>nv_test = ''Anderson-Darling'',
                              nv_statistic = stat,
                              nv_critical_value = Some (last cvs),
                              nv_p_value = None,
                              nv_is_normal = fless stat (last cvs),
                              nv_alpha = alpha\<rparr>)))
      else
        (let data_clean = filter isfinite data in
         if length data_clean < 3 then Inr None
         else
           (case shapiro lib data_clean of
              Inl e \<Rightarrow> Inl e
            | Inr (stat, p) \<Rightarrow>
                Inr (Some \<lparr>nv_test = ''Shapiro-Wilk'',
                           nv_statistic = stat,
                           nv_critical_value = None,
                           nv_p_value = Some p,
                           nv_is_normal = fgreater p alpha,
                           nv_alpha = alpha\<rparr>))))"

text \<open>The dictionary \<^verbatim>\<open>test_variance_homogeneity\<close> returns.\<close>

record variance_verdict =
  vv_test :: string
  vv_statistic :: pyfloat
  vv_p_value :: pyfloat
  vv_equal_variances :: bool
  vv_alpha :: pyfloat

text \<open>\<^verbatim>\<open>test_variance_homogeneity(groups, alpha)\<close>, lines 90 to 113: the groups go to
  \<^verbatim>\<open>levene\<close> as they are.\<close>

definition test_variance_homogeneity :: "stats_lib \<Rightarrow> pyfloat list list \<Rightarrow> pyfloat \<Rightarrow> error + variance_verdict" where
  "test_variance_homogeneity lib groups alpha =
     (case levene lib groups of
        Inl e \<Rightarrow> Inl e
      | Inr (stat, p) \<Rightarrow>
          Inr \<lparr>vv_test = ''Levene's'',
               vv_statistic = stat,
               vv_p_value = p,
               vv_equal_variances = fgreater p alpha,
               vv_alpha = alpha\<rparr>)"

section \<open>Research question 1\<close>

text \<open>
  \<^verbatim>\<open>Series.unique()\<close> returns the distinct values in order of first appearance. The
  labels are strings (missing labels are outside the model).
\<close>

definition unique :: "'a list \<Rightarrow> 'a list" where
  "unique xs = rev (remdups (rev xs))"

text \<open>Lines 128 and 312: one array of points per label, in the order of the labels.\<close>

definition groups_of :: "dataframe \<Rightarrow> string list \<Rightarrow> pyfloat list list" where
  "groups_of df classes =
     map (\<lambda>cls. map points (filter (\<lambda>ob. rider_class ob = cls) df)) classes"

text \<open>
  Lines 137 to 141: the loop that fills the dictionary \<^verbatim>\<open>normality_results\<close>. A group
  whose check returns \<^verbatim>\<open>None\<close> gets no entry. The dictionary is kept as an association
  list in insertion order (the labels are distinct).
\<close>

fun normality_loop :: "stats_lib \<Rightarrow> (string \<times> pyfloat list) list \<Rightarrow> error + (string \<times> normality_verdict) list" where
  "normality_loop lib [] = Inr []"
| "normality_loop lib ((cls, grp) # rest) =
     (case test_normality lib grp alpha_default of
        Inl e \<Rightarrow> Inl e
      | Inr result \<Rightarrow>
          (case normality_loop lib rest of
             Inl e \<Rightarrow> Inl e
           | Inr nr \<Rightarrow>
               (case result of
                  None \<Rightarrow> Inr nr
                | Some v \<Rightarrow> Inr ((cls, v) # nr))))"

text \<open>Line 161: \<^verbatim>\<open>all([...]) if normality_results else False\<close>.\<close>

definition all_normal_of :: "(string \<times> normality_verdict) list \<Rightarrow> bool" where
  "all_normal_of normality_results =
     (if normality_results \<noteq> [] then list_all (\<lambda>(cls, r). nv_is_normal r) normality_results
      else False)"

text \<open>Lines 186 to 190: the values and labels handed to Tukey's procedure.\<close>

definition tukey_data :: "pyfloat list list \<Rightarrow> pyfloat list" where
  "tukey_data groups = concat groups"

definition tukey_labels :: "string list \<Rightarrow> pyfloat list list \<Rightarrow> string list" where
  "tukey_labels classes groups =
     concat (map (\<lambda>(cls, grp). replicate (length grp) cls) (zip classes groups))"

text \<open>One entry of \<^verbatim>\<open>posthoc_results\<close> (lines 234 to 240).\<close>

record posthoc_row =
  group1 :: string
  group2 :: string
  u_statistic :: pyfloat
  ph_p_value :: pyfloat
  ph_significant :: bool

text \<open>Lines 230 and 231: the index pairs \<open>(i, j)\<close> with \<open>i < j < k\<close>, in loop order.\<close>

definition index_pairs :: "nat \<Rightarrow> (nat \<times> nat) list" where
  "index_pairs k = concat (map (\<lambda>i. map (\<lambda>j. (i, j)) [i + 1 ..< k]) [0 ..< k])"

text \<open>Lines 232 to 240: the body of the double loop, run over the index pairs, each test
  called with \<^verbatim>\<open>alternative='two-sided'\<close>. An index outside an array raises IndexError.\<close>

fun mannwhitney_loop :: "stats_lib \<Rightarrow> string list \<Rightarrow> pyfloat list list \<Rightarrow> pyfloat \<Rightarrow> (nat \<times> nat) list \<Rightarrow> error + posthoc_row list" where
  "mannwhitney_loop lib classes groups bonferroni_alpha [] = Inr []"
| "mannwhitney_loop lib classes groups bonferroni_alpha ((i, j) # rest) =
     (if i < length groups \<and> j < length groups \<and> i < length classes \<and> j < length classes then
        (case mannwhitneyu lib (groups ! i) (groups ! j) ''two-sided'' of
           Inl e \<Rightarrow> Inl e
         | Inr (u_stat, p_val) \<Rightarrow>
             (case mannwhitney_loop lib classes groups bonferroni_alpha rest of
                Inl e \<Rightarrow> Inl e
              | Inr rows \<Rightarrow>
                  Inr (\<lparr>group1 = classes ! i,
                        group2 = classes ! j,
                        u_statistic = u_stat,
                        ph_p_value = p_val,
                        ph_significant = fless p_val bonferroni_alpha\<rparr> # rows)))
      else Inl IndexError)"

text \<open>
  What the post-hoc block of \<^verbatim>\<open>research_question_1\<close> computes and prints: nothing
  (main test not significant), Tukey's table, or the corrected alpha, the number of
  comparisons and the list \<^verbatim>\<open>posthoc_results\<close>.
\<close>

datatype posthoc = NoPosthoc | TukeyHSD "tukey_row list" | MannWhitneyU pyfloat nat "posthoc_row list"

text \<open>Lines 224 to 244. \<^verbatim>\<open>0.05 / num_comparisons\<close> raises ZeroDivisionError when the
  count is 0, and is the double division otherwise.\<close>

definition posthoc_mannwhitney :: "stats_lib \<Rightarrow> string list \<Rightarrow> pyfloat list list \<Rightarrow> error + posthoc" where
  "posthoc_mannwhitney lib classes groups =
     (let num_comparisons = length classes * (length classes - 1) div 2 in
      if num_comparisons = 0 then Inl ZeroDivisionError
      else
        (let bonferroni_alpha = truediv lib (Fin 0.05) num_comparisons in
         case mannwhitney_loop lib classes groups bonferroni_alpha (index_pairs (length classes)) of
           Inl e \<Rightarrow> Inl e
         | Inr rows \<Rightarrow> Inr (MannWhitneyU bonferroni_alpha num_comparisons rows)))"

text \<open>The dictionary \<^verbatim>\<open>research_question_1\<close> returns; \<open>rq1_statistic\<close> is the key
  \<^verbatim>\<open>f_statistic\<close> or \<^verbatim>\<open>h_statistic\<close>.\<close>

record rq1_return =
  rq1_test :: string
  rq1_statistic :: pyfloat
  rq1_p_value :: pyfloat
  rq1_significant :: bool

text \<open>
  Everything \<^verbatim>\<open>research_question_1\<close> computes: the values it prints (labels, groups,
  the normality dictionary, the variance verdict, the post-hoc block) and the dictionary it
  returns.
\<close>

record rq1_report =
  rq1_rider_classes :: "string list"
  rq1_groups :: "pyfloat list list"
  rq1_normality_results :: "(string \<times> normality_verdict) list"
  rq1_variance_test :: variance_verdict
  rq1_posthoc :: posthoc
  rq1_result :: rq1_return

text \<open>Lines 133 to 255, for given labels and groups.\<close>

definition one_way_analysis :: "stats_lib \<Rightarrow> string list \<Rightarrow> pyfloat list list \<Rightarrow> error + rq1_report" where
  "one_way_analysis lib classes groups =
     (case normality_loop lib (zip classes groups) of
        Inl e \<Rightarrow> Inl e
      | Inr normality_results \<Rightarrow>
     (case test_variance_homogeneity lib groups alpha_default of
        Inl e \<Rightarrow> Inl e
      | Inr variance_test \<Rightarrow>
     (let all_normal = all_normal_of normality_results in
      if all_normal \<and> vv_equal_variances variance_test then
        (case f_oneway lib groups of
           Inl e \<Rightarrow> Inl e
         | Inr (f_statistic, p_value) \<Rightarrow>
        (case (if fless p_value (Fin 0.05)
               then (case pairwise_tukeyhsd lib (tukey_data groups) (tukey_labels classes groups) (Fin 0.05) of
                       Inl e \<Rightarrow> Inl e
                     | Inr tukey_result \<Rightarrow> Inr (TukeyHSD tukey_result))
               else Inr NoPosthoc) of
           Inl e \<Rightarrow> Inl e
         | Inr ph \<Rightarrow>
             Inr \<lparr>rq1_rider_classes = classes,
                  rq1_groups = groups,
                  rq1_normality_results = normality_results,
                  rq1_variance_test = variance_test,
                  rq1_posthoc = ph,
                  rq1_result = \<lparr>rq1_test = ''ANOVA'',
                                 rq1_statistic = f_statistic,
                                 rq1_p_value = p_value,
                                 rq1_significant = fless p_value (Fin 0.05)\<rparr>\<rparr>))
      else
        (case kruskal lib groups of
           Inl e \<Rightarrow> Inl e
         | Inr (h_statistic, p_value) \<Rightarrow>
        (case (if fless p_value (Fin 0.05)
               then posthoc_mannwhitney lib classes groups
               else Inr NoPosthoc) of
           Inl e \<Rightarrow> Inl e
         | Inr ph \<Rightarrow>
             Inr \<lparr>rq1_rider_classes = classes,
                  rq1_groups = groups,
                  rq1_normality_results = normality_results,
                  rq1_variance_test = variance_test,
                  rq1_posthoc = ph,
                  rq1_result = \<lparr>rq1_test = ''Kruskal-Wallis'',
                                 rq1_statistic = h_statistic,
                                 rq1_p_value = p_value,
                                 rq1_significant = fless p_value (Fin 0.05)\<rparr>\<rparr>)))))"

text \<open>\<^verbatim>\<open>research_question_1(df)\<close>, lines 116 to 255.\<close>

definition research_question_1 :: "stats_lib \<Rightarrow> dataframe \<Rightarrow> error + rq1_report" where
  "research_question_1 lib df =
     (let rider_classes = unique (map rider_class df);
          groups = groups_of df rider_classes
      in one_way_analysis lib rider_classes groups)"

section \<open>Research question 2\<close>

text \<open>Line 281: the model formula, and line 282: \<^verbatim>\<open>typ=2\<close>.\<close>

definition two_way_formula :: string where
  "two_way_formula = ''points ~ C(rider_class) + C(stage_class) + C(rider_class):C(stage_class)''"

definition two_way_typ :: nat where
  "two_way_typ = 2"

text \<open>Lines 288 to 290: \<^verbatim>\<open>anova_table.loc[label, 'PR(>F)']\<close>; a missing row label raises
  KeyError.\<close>

definition loc_PR :: "anova_table \<Rightarrow> string \<Rightarrow> error + pyfloat" where
  "loc_PR tbl label =
     (case map_of tbl label of
        None \<Rightarrow> Inl (KeyError label)
      | Some row \<Rightarrow> Inr (PR_F row))"

text \<open>
  Lines 315 to 320: the normality loop of one stratum. It starts from \<^verbatim>\<open>all_normal =
  True\<close> and leaves at the first verdict that is present and not normal
  (\<^verbatim>\<open>break\<close>); a group with no verdict changes nothing.
\<close>

fun stratum_normality_loop :: "stats_lib \<Rightarrow> (string \<times> pyfloat list) list \<Rightarrow> error + bool" where
  "stratum_normality_loop lib [] = Inr True"
| "stratum_normality_loop lib ((cls, grp) # rest) =
     (case test_normality lib grp alpha_default of
        Inl e \<Rightarrow> Inl e
      | Inr result \<Rightarrow>
          (case result of
             None \<Rightarrow> stratum_normality_loop lib rest
           | Some v \<Rightarrow>
               (if \<not> nv_is_normal v then Inr False
                else stratum_normality_loop lib rest)))"

text \<open>One entry of \<^verbatim>\<open>stage_results\<close> (lines 334 to 339).\<close>

record stage_result =
  sr_test :: string
  sr_statistic :: pyfloat
  sr_p_value :: pyfloat
  sr_significant :: bool

text \<open>Lines 310 to 339: the body of the loop over the stage classes.\<close>

definition stage_analysis :: "stats_lib \<Rightarrow> dataframe \<Rightarrow> string \<Rightarrow> error + stage_result" where
  "stage_analysis lib df stage_cls =
     (let stage_df = filter (\<lambda>ob. stage_class ob = stage_cls) df;
          rider_classes = unique (map rider_class stage_df);
          groups = groups_of stage_df rider_classes
      in
      case stratum_normality_loop lib (zip rider_classes groups) of
        Inl e \<Rightarrow> Inl e
      | Inr all_normal \<Rightarrow>
     (case test_variance_homogeneity lib groups alpha_default of
        Inl e \<Rightarrow> Inl e
      | Inr variance_test \<Rightarrow>
     (if all_normal \<and> vv_equal_variances variance_test then
        (case f_oneway lib groups of
           Inl e \<Rightarrow> Inl e
         | Inr (f_stat, p_val) \<Rightarrow>
             Inr \<lparr>sr_test = ''ANOVA'',
                  sr_statistic = f_stat,
                  sr_p_value = p_val,
                  sr_significant = fless p_val (Fin 0.05)\<rparr>)
      else
        (case kruskal lib groups of
           Inl e \<Rightarrow> Inl e
         | Inr (h_stat, p_val) \<Rightarrow>
             Inr \<lparr>sr_test = ''Kruskal-Wallis'',
                  sr_statistic = h_stat,
                  sr_p_value = p_val,
                  sr_significant = fless p_val (Fin 0.05)\<rparr>))))"

text \<open>Lines 305 to 347: the loop that fills the dictionary \<^verbatim>\<open>stage_results\<close>, kept in
  insertion order.\<close>

fun stage_loop :: "stats_lib \<Rightarrow> dataframe \<Rightarrow> string list \<Rightarrow> error + (string \<times> stage_result) list" where
  "stage_loop lib df [] = Inr []"
| "stage_loop lib df (stage_cls # rest) =
     (case stage_analysis lib df stage_cls of
        Inl e \<Rightarrow> Inl e
      | Inr res \<Rightarrow>
          (case stage_loop lib df rest of
             Inl e \<Rightarrow> Inl e
           | Inr results \<Rightarrow> Inr ((stage_cls, res) # results)))"

text \<open>The dictionary \<^verbatim>\<open>research_question_2\<close> returns.\<close>

record rq2_return =
  interaction_p :: pyfloat
  rider_main_p :: pyfloat
  stage_main_p :: pyfloat
  anova_table_of :: anova_table

text \<open>
  Everything \<^verbatim>\<open>research_question_2\<close> computes: the dictionary \<^verbatim>\<open>stage_results\<close> it
  prints (\<open>None\<close> when the branch of line 296 is not taken) and the dictionary it returns.
\<close>

record rq2_report =
  rq2_stage_results :: "(string \<times> stage_result) list option"
  rq2_result :: rq2_return

text \<open>\<^verbatim>\<open>research_question_2(df)\<close>, lines 258 to 368.\<close>

definition research_question_2 :: "stats_lib \<Rightarrow> dataframe \<Rightarrow> error + rq2_report" where
  "research_question_2 lib df =
     (case anova_lm_ols lib two_way_formula two_way_typ df of
        Inl e \<Rightarrow> Inl e
      | Inr anova_table \<Rightarrow>
     (case loc_PR anova_table ''C(rider_class):C(stage_class)'' of
        Inl e \<Rightarrow> Inl e
      | Inr interaction \<Rightarrow>
     (case loc_PR anova_table ''C(rider_class)'' of
        Inl e \<Rightarrow> Inl e
      | Inr rider_main \<Rightarrow>
     (case loc_PR anova_table ''C(stage_class)'' of
        Inl e \<Rightarrow> Inl e
      | Inr stage_main \<Rightarrow>
     (case (if fless interaction (Fin 0.05)
            then (case stage_loop lib df (unique (map stage_class df)) of
                    Inl e \<Rightarrow> Inl e
                  | Inr results \<Rightarrow> Inr (Some results))
            else Inr None) of
        Inl e \<Rightarrow> Inl e
      | Inr stage_results \<Rightarrow>
          Inr \<lparr>rq2_stage_results = stage_results,
               rq2_result = \<lparr>interaction_p = interaction,
                              rider_main_p = rider_main,
                              stage_main_p = stage_main,
                              anova_table_of = anova_table\<rparr>\<rparr>)))))"

section \<open>Unordered pairs\<close>

text \<open>
  The specification's enumeration of the post-hoc comparisons: every unordered pair of a
  list, the earlier element first, pairs with an earlier first element first.
\<close>

fun pairs_of :: "'a list \<Rightarrow> ('a \<times> 'a) list" where
  "pairs_of [] = []"
| "pairs_of (x # xs) = map (Pair x) xs @ pairs_of xs"

section \<open>Concrete inputs\<close>

text \<open>
  A library instance for the concrete runs below. Each routine answers with fixed values
  of the kind the real routine reports: Shapiro-Wilk and Levene pass, the F-test is not
  significant, Kruskal-Wallis is, every rank-sum test reports p = 0.03, and the two-way
  table has a significant interaction. \<open>anderson\<close> reports a NaN statistic as soon as a
  value is not finite, and SciPy's critical values for a large normal sample. The division
  is the double one where the concrete runs divide: \<^verbatim>\<open>0.05 / 3\<close> is the double
  0.016666666666666666, that is 4803839602528529 / 2^58, which lies below 1/60;
  \<^verbatim>\<open>0.05 / 1\<close> is exact.
\<close>

definition double_0_05_div_3 :: real where
  "double_0_05_div_3 = 4803839602528529 / 288230376151711744"

definition double_div :: "pyfloat \<Rightarrow> nat \<Rightarrow> pyfloat" where
  "double_div x n =
     (case x of
        Fin r \<Rightarrow> (if r = 0.05 \<and> n = 3 then Fin double_0_05_div_3 else Fin (r / real n))
      | _ \<Rightarrow> x)"

definition anderson_critical_values :: "pyfloat list" where
  "anderson_critical_values = [Fin 0.576, Fin 0.656, Fin 0.787, Fin 0.918, Fin 1.092]"

definition demo_row :: "pyfloat \<Rightarrow> pyfloat \<Rightarrow> anova_row" where
  "demo_row f p = \<lparr>sum_sq = Fin 1, df_col = Fin 1, F_col = f, PR_F = p\<rparr>"

definition demo_table :: anova_table where
  "demo_table =
     [(''C(rider_class)'', demo_row (Fin 12) (Fin 0.002)),
      (''C(stage_class)'', demo_row (Fin 3) (Fin 0.2)),
      (''C(rider_class):C(stage_class)'', demo_row (Fin 9) (Fin 0.01)),
      (''Residual'', demo_row NaN NaN)]"

definition demo_lib :: stats_lib where
  "demo_lib =
     \<lparr>shapiro = (\<lambda>xs. Inr (Fin 0.98, Fin 0.8)),
      anderson = (\<lambda>xs. if list_all isfinite xs then Inr (Fin 0.3, anderson_critical_values)
                        else Inr (NaN, anderson_critical_values)),
      levene = (\<lambda>gs. Inr (Fin 0.6, Fin 0.5)),
      f_oneway = (\<lambda>gs. Inr (Fin 0.1, Fin 0.9)),
      kruskal = (\<lambda>gs. Inr (Fin 9, Fin 0.01)),
      mannwhitneyu = (\<lambda>a b alt. Inr (Fin 2, Fin 0.03)),
      pairwise_tukeyhsd = (\<lambda>d l a. Inr []),
      anova_lm_ols = (\<lambda>f t d. Inr demo_table),
      truediv = double_div\<rparr>"

text \<open>Two rider classes on one stage class; class A has only two results.\<close>

definition df_two_small :: dataframe where
  "df_two_small =
     [\<lparr>points = Fin 1, rider_class = ''A'', stage_class = ''flat''\<rparr>,
      \<lparr>points = Fin 3, rider_class = ''A'', stage_class = ''flat''\<rparr>,
      \<lparr>points = Fin 1, rider_class = ''B'', stage_class = ''flat''\<rparr>,
      \<lparr>points = Fin 2, rider_class = ''B'', stage_class = ''flat''\<rparr>,
      \<lparr>points = Fin 3, rider_class = ''B'', stage_class = ''flat''\<rparr>]"

text \<open>
  A library instance whose Levene routine reports NaN for the statistic and the p-value
  when every group is constant: the statistic is then the quotient 0/0, as in SciPy.
\<close>

definition constant_group :: "pyfloat list \<Rightarrow> bool" where
  "constant_group g = list_all (\<lambda>x. list_all (\<lambda>y. x = y) g) g"

definition degenerate_lib :: stats_lib where
  "degenerate_lib =
     demo_lib\<lparr>levene := (\<lambda>gs. if list_all constant_group gs then Inr (NaN, NaN)
                               else Inr (Fin 0.6, Fin 0.5))\<rparr>"

text \<open>Three rider classes with three results each, in mixed row order.\<close>

definition df_three :: dataframe where
  "df_three =
     [\<lparr>points = Fin 1, rider_class = ''Sprinter'', stage_class = ''flat''\<rparr>,
      \<lparr>points = Fin 40, rider_class = ''Climber'', stage_class = ''flat''\<rparr>,
      \<lparr>points = Fin 2, rider_class = ''Sprinter'', stage_class = ''flat''\<rparr>,
      \<lparr>points = Fin 9, rider_class = ''Allrounder'', stage_class = ''flat''\<rparr>,
      \<lparr>points = Fin 50, rider_class = ''Climber'', stage_class = ''flat''\<rparr>,
      \<lparr>points = Fin 4, rider_class = ''Sprinter'', stage_class = ''flat''\<rparr>,
      \<lparr>points = Fin 10, rider_class = ''Allrounder'', stage_class = ''flat''\<rparr>,
      \<lparr>points = Fin 70, rider_class = ''Climber'', stage_class = ''flat''\<rparr>,
      \<lparr>points = Fin 14, rider_class = ''Allrounder'', stage_class = ''flat''\<rparr>]"

text \<open>The library instance with a Levene routine that rejects equal variances, and the one
  whose two-sided rank-sum test moreover reports the double 0.016666666666666666 as its
  p-value (any other alternative is refused).\<close>

definition unequal_variance_lib :: stats_lib where
  "unequal_variance_lib = demo_lib\<lparr>levene := (\<lambda>gs. Inr (Fin 8, Fin 0.001))\<rparr>"

definition threshold_tie_lib :: stats_lib where
  "threshold_tie_lib =
     unequal_variance_lib
       \<lparr>mannwhitneyu := (\<lambda>a b alt. if alt = ''two-sided'' then Inr (Fin 0, Fin double_0_05_div_3)
                                   else Inl (LibraryError ''alternative''))\<rparr>"

text \<open>The verdict of the passing Shapiro-Wilk routine, and the report of
  \<^verbatim>\<open>research_question_1\<close> on the three classes when Levene's routine rejects.\<close>

definition shapiro_pass :: normality_verdict where
  "shapiro_pass = \<lparr>nv_test = ''Shapiro-Wilk'', nv_statistic = Fin 0.98,
                    nv_critical_value = None, nv_p_value = Some (Fin 0.8),
                    nv_is_normal = True, nv_alpha = Fin 0.05\<rparr>"

definition three_report :: rq1_report where
  "three_report =
     \<lparr>rq1_rider_classes = [''Sprinter'', ''Climber'', ''Allrounder''],
      rq1_groups = [[Fin 1, Fin 2, Fin 4], [Fin 40, Fin 50, Fin 70], [Fin 9, Fin 10, Fin 14]],
      rq1_normality_results =
        [(''Sprinter'', shapiro_pass), (''Climber'', shapiro_pass), (''Allrounder'', shapiro_pass)],
      rq1_variance_test =
        \<lparr>vv_test = ''Levene's'', vv_statistic = Fin 8, vv_p_value = Fin 0.001,
         vv_equal_variances = False, vv_alpha = Fin 0.05\<rparr>,
      rq1_posthoc = MannWhitneyU (Fin double_0_05_div_3) 3
        [\<lparr>group1 = ''Sprinter'', group2 = ''Climber'', u_statistic = Fin 0,
          ph_p_value = Fin double_0_05_div_3, ph_significant = False\<rparr>,
         \<lparr>group1 = ''Sprinter'', group2 = ''Allrounder'', u_statistic = Fin 0,
          ph_p_value = Fin double_0_05_div_3, ph_significant = False\<rparr>,
         \<lparr>group1 = ''Climber'', group2 = ''Allrounder'', u_statistic = Fin 0,
          ph_p_value = Fin double_0_05_div_3, ph_significant = False\<rparr>],
      rq1_result = \<lparr>rq1_test = ''Kruskal-Wallis'', rq1_statistic = Fin 9,
                     rq1_p_value = Fin 0.01, rq1_significant = True\<rparr>\<rparr>"

text \<open>Two rider classes with the same two results each: no class has 3 finite values.\<close>

definition df_tiny :: dataframe where
  "df_tiny =
     [\<lparr>points = Fin 0.1, rider_class = ''A'', stage_class = ''flat''\<rparr>,
      \<lparr>points = Fin 0.3, rider_class = ''A'', stage_class = ''flat''\<rparr>,
      \<lparr>points = Fin 0.1, rider_class = ''B'', stage_class = ''flat''\<rparr>,
      \<lparr>points = Fin 0.3, rider_class = ''B'', stage_class = ''flat''\<rparr>]"

text \<open>
  The library instance for identical groups: Levene's statistic is 0 with p-value 1 (the
  group means of the absolute deviations coincide), and so is the Kruskal-Wallis statistic.
\<close>

definition identical_groups_lib :: stats_lib where
  "identical_groups_lib =
     demo_lib\<lparr>levene := (\<lambda>gs. Inr (Fin 0, Fin 1)), kruskal := (\<lambda>gs. Inr (Fin 0, Fin 1))\<rparr>"

text \<open>Lines 310 to 312: the rider classes and the groups of one stratum.\<close>

definition stratum_classes :: "dataframe \<Rightarrow> string \<Rightarrow> string list" where
  "stratum_classes df stage_cls =
     unique (map rider_class (filter (\<lambda>ob. stage_class ob = stage_cls) df))"

definition stratum_groups :: "dataframe \<Rightarrow> string \<Rightarrow> pyfloat list list" where
  "stratum_groups df stage_cls =
     groups_of (filter (\<lambda>ob. stage_class ob = stage_cls) df) (stratum_classes df stage_cls)"

text \<open>
  Two stage classes and two rider classes; on the flat stages class A has only two
  results.
\<close>

definition df_strata :: dataframe where
  "df_strata =
     [\<lparr>points = Fin 1, rider_class = ''A'', stage_class = ''flat''\<rparr>,
      \<lparr>points = Fin 3, rider_class = ''A'', stage_class = ''flat''\<rparr>,
      \<lparr>points = Fin 1, rider_class = ''B'', stage_class = ''flat''\<rparr>,
      \<lparr>points = Fin 2, rider_class = ''B'', stage_class = ''flat''\<rparr>,
      \<lparr>points = Fin 3, rider_class = ''B'', stage_class = ''flat''\<rparr>,
      \<lparr>points = Fin 10, rider_class = ''A'', stage_class = ''mountain''\<rparr>,
      \<lparr>points = Fin 20, rider_class = ''A'', stage_class = ''mountain''\<rparr>,
      \<lparr>points = Fin 30, rider_class = ''A'', stage_class = ''mountain''\<rparr>,
      \<lparr>points = Fin 30, rider_class = ''B'', stage_class = ''mountain''\<rparr>,
      \<lparr>points = Fin 20, rider_class = ''B'', stage_class = ''mountain''\<rparr>,
      \<lparr>points = Fin 11, rider_class = ''B'', stage_class = ''mountain''\<rparr>]"

text \<open>
  The library instance that observes the post-hoc routines: Levene's routine rejects (so
  that Kruskal-Wallis, significant, is run), and the two post-hoc routines raise as soon as
  they are called.
\<close>

definition posthoc_probe_lib :: stats_lib where
  "posthoc_probe_lib =
     unequal_variance_lib
       \<lparr>mannwhitneyu := (\<lambda>a b alt. Inl (LibraryError ''mannwhitneyu called'')),
        pairwise_tukeyhsd := (\<lambda>d l a. Inl (LibraryError ''pairwise_tukeyhsd called''))\<rparr>"














section \<open>Properties of the assumption checks\<close>

lemma test_normality_large:
  assumes "length data > 5000"
  shows "test_normality lib data alpha = Inr res \<longleftrightarrow>
     (\<exists>stat cvs. anderson lib data = Inr (stat, cvs) \<and> cvs \<noteq> [] \<and>
        res = Some \<lparr>nv_test = ''Anderson-Darling'', nv_statistic = stat,
                     nv_critical_value = Some (last cvs), nv_p_value = None,
                     nv_is_normal = fless stat (last cvs), nv_alpha = alpha\<rparr>)"
  using assms by (auto simp: test_normality_def split: sum.splits prod.splits)

lemma test_normality_small:
  assumes "length data \<le> 5000"
  shows "test_normality lib data alpha = Inr res \<longleftrightarrow>
     (if length (filter isfinite data) < 3 then res = None
      else (\<exists>stat p. shapiro lib (filter isfinite data) = Inr (stat, p) \<and>
        res = Some \<lparr>nv_test = ''Shapiro-Wilk'', nv_statistic = stat,
                     nv_critical_value = None, nv_p_value = Some p,
                     nv_is_normal = fgreater p alpha, nv_alpha = alpha\<rparr>))"
  using assms by (auto simp: test_normality_def Let_def split: sum.splits prod.splits)

lemma test_normality_Inl:
  "test_normality lib data alpha = Inl e \<longleftrightarrow>
     (if length data > 5000
      then anderson lib data = Inl e \<or> (\<exists>stat. anderson lib data = Inr (stat, []) \<and> e = IndexError)
      else 3 \<le> length (filter isfinite data) \<and> shapiro lib (filter isfinite data) = Inl e)"
  by (auto simp: test_normality_def Let_def split: sum.splits prod.splits)

section \<open>Properties of the one-way analysis\<close>

lemma tvh_Inr:
  "test_variance_homogeneity lib groups alpha = Inr vt \<longleftrightarrow>
     (\<exists>stat p. levene lib groups = Inr (stat, p) \<and>
        vt = \<lparr>vv_test = ''Levene's'', vv_statistic = stat, vv_p_value = p,
              vv_equal_variances = fgreater p alpha, vv_alpha = alpha\<rparr>)"
  by (auto simp: test_variance_homogeneity_def split: sum.splits prod.splits)

lemma tvh_Inl:
  "test_variance_homogeneity lib groups alpha = Inl e \<longleftrightarrow> levene lib groups = Inl e"
  by (auto simp: test_variance_homogeneity_def split: sum.splits prod.splits)

lemma normality_loop_mem:
  "normality_loop lib cgs = Inr nr \<Longrightarrow>
     (c, v) \<in> set nr \<longleftrightarrow>
     (\<exists>g. (c, g) \<in> set cgs \<and> test_normality lib g alpha_default = Inr (Some v))"
proof (induction cgs arbitrary: nr)
  case Nil
  then show ?case by simp
next
  case (Cons a cgs)
  obtain c' g' where a: "a = (c', g')" by (cases a)
  from Cons.prems a obtain res nr' where
    r: "test_normality lib g' alpha_default = Inr res" and
    l: "normality_loop lib cgs = Inr nr'" and
    n: "nr = (case res of None \<Rightarrow> nr' | Some v \<Rightarrow> (c', v) # nr')"
    by (auto split: sum.splits option.splits)
  show ?case
  proof (cases res)
    case None
    with Cons.IH[OF l] r n a show ?thesis by auto
  next
    case (Some w)
    with Cons.IH[OF l] r n a show ?thesis by auto
  qed
qed


lemma all_normal_of_iff:
  "all_normal_of nr \<longleftrightarrow> nr \<noteq> [] \<and> (\<forall>(c, v) \<in> set nr. nv_is_normal v)"
  by (auto simp: all_normal_of_def list_all_iff)

lemma one_way_analysis_fields:
  assumes "one_way_analysis lib classes groups = Inr r"
  shows "normality_loop lib (zip classes groups) = Inr (rq1_normality_results r)"
    and "test_variance_homogeneity lib groups alpha_default = Inr (rq1_variance_test r)"
    and "rq1_rider_classes r = classes"
    and "rq1_groups r = groups"
  using assms
  by (auto simp: one_way_analysis_def Let_def split: sum.splits prod.splits if_splits)

lemma one_way_analysis_anova:
  assumes "one_way_analysis lib classes groups = Inr r"
    and "all_normal_of (rq1_normality_results r) \<and> vv_equal_variances (rq1_variance_test r)"
  shows "f_oneway lib groups = Inr (rq1_statistic (rq1_result r), rq1_p_value (rq1_result r))"
    and "rq1_test (rq1_result r) = ''ANOVA''"
    and "rq1_significant (rq1_result r) = fless (rq1_p_value (rq1_result r)) (Fin 0.05)"
    and "rq1_significant (rq1_result r) \<Longrightarrow>
           map_sum id TukeyHSD
             (pairwise_tukeyhsd lib (tukey_data groups) (tukey_labels classes groups) (Fin 0.05))
           = Inr (rq1_posthoc r)"
    and "\<not> rq1_significant (rq1_result r) \<Longrightarrow> rq1_posthoc r = NoPosthoc"
  using assms
  by (auto simp: one_way_analysis_def Let_def split: sum.splits prod.splits if_splits)

lemma one_way_analysis_kruskal:
  assumes "one_way_analysis lib classes groups = Inr r"
    and "\<not> (all_normal_of (rq1_normality_results r) \<and> vv_equal_variances (rq1_variance_test r))"
  shows "kruskal lib groups = Inr (rq1_statistic (rq1_result r), rq1_p_value (rq1_result r))"
    and "rq1_test (rq1_result r) = ''Kruskal-Wallis''"
    and "rq1_significant (rq1_result r) = fless (rq1_p_value (rq1_result r)) (Fin 0.05)"
    and "rq1_significant (rq1_result r) \<Longrightarrow>
           posthoc_mannwhitney lib classes groups = Inr (rq1_posthoc r)"
    and "\<not> rq1_significant (rq1_result r) \<Longrightarrow> rq1_posthoc r = NoPosthoc"
  using assms
  by (auto simp: one_way_analysis_def Let_def split: sum.splits prod.splits if_splits)

section \<open>Properties of the pair enumeration\<close>

lemma index_pairs_Suc:
  "index_pairs (Suc n) =
     map (Pair 0) [1 ..< Suc n] @ map (\<lambda>(i, j). (Suc i, Suc j)) (index_pairs n)"
proof -
  have upt: "[0 ..< Suc n] = 0 # map Suc [0 ..< n]"
    by (simp add: upt_conv_Cons map_Suc_upt del: upt_Suc)
  have inner: "\<And>i. [Suc i + 1 ..< Suc n] = map Suc [i + 1 ..< n]"
    by (simp add: map_Suc_upt)
  have "index_pairs (Suc n) =
      map (Pair 0) [1 ..< Suc n] @
      concat (map (\<lambda>i. map (\<lambda>j. (Suc i, j)) [Suc i + 1 ..< Suc n]) [0 ..< n])"
    unfolding index_pairs_def upt by (simp add: comp_def del: upt_Suc)
  also have "concat (map (\<lambda>i. map (\<lambda>j. (Suc i, j)) [Suc i + 1 ..< Suc n]) [0 ..< n]) =
      map (\<lambda>(i, j). (Suc i, Suc j)) (index_pairs n)"
    unfolding index_pairs_def inner by (simp add: map_concat comp_def del: upt_Suc)
  finally show ?thesis .
qed

lemma index_pairs_nth:
  "map (\<lambda>(i, j). (xs ! i, xs ! j)) (index_pairs (length xs)) = pairs_of xs"
proof (induction xs)
  case Nil
  show ?case by (simp add: index_pairs_def)
next
  case (Cons x xs)
  have "map (\<lambda>j. (x # xs) ! j) [1 ..< Suc (length xs)] = map (\<lambda>j. xs ! j) [0 ..< length xs]"
    by (simp add: comp_def del: upt_Suc flip: map_Suc_upt)
  then have "map (\<lambda>j. (x # xs) ! j) [1 ..< Suc (length xs)] = xs"
    by (simp add: map_nth del: upt_Suc)
  then have "map (Pair x) (map (\<lambda>j. (x # xs) ! j) [1 ..< Suc (length xs)]) = map (Pair x) xs"
    by (rule arg_cong)
  then have first: "map (\<lambda>(i, j). ((x # xs) ! i, (x # xs) ! j)) (map (Pair 0) [1 ..< Suc (length xs)])
      = map (Pair x) xs"
    by (simp add: comp_def del: upt_Suc)
  show ?case
    using Cons.IH first
    by (simp add: index_pairs_Suc comp_def case_prod_unfold del: upt_Suc)
qed

lemma length_pairs_of: "length (pairs_of xs) = length xs * (length xs - 1) div 2"
proof (induction xs)
  case Nil
  show ?case by simp
next
  case (Cons x xs)
  have "even (length xs * (length xs - 1))" by (cases "length xs") auto
  then obtain m where m: "length xs * (length xs - 1) = 2 * m" by (elim evenE)
  have "Suc (length xs) * length xs = 2 * length xs + length xs * (length xs - 1)"
    by (cases "length xs") auto
  with m Cons.IH show ?case by simp
qed

lemma length_index_pairs: "length (index_pairs k) = k * (k - 1) div 2"
proof -
  have "length (index_pairs k) = length (map (\<lambda>(i, j). (replicate k () ! i, replicate k () ! j)) (index_pairs (length (replicate k ()))))"
    by simp
  also have "\<dots> = length (pairs_of (replicate k ()))"
    by (simp only: index_pairs_nth)
  finally show ?thesis by (simp add: length_pairs_of)
qed


lemma research_question_1_fields:
  assumes "research_question_1 lib df = Inr r"
  shows "rq1_rider_classes r = unique (map rider_class df)"
    and "rq1_groups r = groups_of df (unique (map rider_class df))"
    and "one_way_analysis lib (rq1_rider_classes r) (rq1_groups r) = Inr r"
  using assms one_way_analysis_fields(3,4)[of lib "unique (map rider_class df)" "groups_of df (unique (map rider_class df))" r]
  by (simp_all add: research_question_1_def Let_def)

lemma one_way_analysis_main_test:
  assumes "one_way_analysis lib classes groups = Inr r"
  shows "(rq1_test (rq1_result r) = ''ANOVA'' \<and>
          f_oneway lib groups = Inr (rq1_statistic (rq1_result r), rq1_p_value (rq1_result r)))
       \<or> (rq1_test (rq1_result r) = ''Kruskal-Wallis'' \<and>
          kruskal lib groups = Inr (rq1_statistic (rq1_result r), rq1_p_value (rq1_result r)))"
  using one_way_analysis_anova(1,2)[OF assms] one_way_analysis_kruskal(1,2)[OF assms]
  by blast

lemma unique_two_small: "unique (map rider_class df_two_small) = [''A'', ''B'']"
  by (simp add: unique_def df_two_small_def)

lemma groups_two_small:
  "groups_of df_two_small [''A'', ''B''] = [[Fin 1, Fin 3], [Fin 1, Fin 2, Fin 3]]"
  by (simp add: groups_of_def df_two_small_def)

lemma rq1_two_small:
  "research_question_1 demo_lib df_two_small =
     Inr \<lparr>rq1_rider_classes = [''A'', ''B''],
          rq1_groups = [[Fin 1, Fin 3], [Fin 1, Fin 2, Fin 3]],
          rq1_normality_results =
            [(''B'', \<lparr>nv_test = ''Shapiro-Wilk'', nv_statistic = Fin 0.98,
                      nv_critical_value = None, nv_p_value = Some (Fin 0.8),
                      nv_is_normal = True, nv_alpha = Fin 0.05\<rparr>)],
          rq1_variance_test =
            \<lparr>vv_test = ''Levene's'', vv_statistic = Fin 0.6, vv_p_value = Fin 0.5,
             vv_equal_variances = True, vv_alpha = Fin 0.05\<rparr>,
          rq1_posthoc = NoPosthoc,
          rq1_result = \<lparr>rq1_test = ''ANOVA'', rq1_statistic = Fin 0.1,
                         rq1_p_value = Fin 0.9, rq1_significant = False\<rparr>\<rparr>"
  by (simp add: research_question_1_def unique_two_small groups_two_small one_way_analysis_def
        test_normality_def test_variance_homogeneity_def all_normal_of_def
        demo_lib_def alpha_default_def fgreater_def)

lemma fless_NaN_right [simp]: "\<not> fless a NaN"
  by (cases a) simp_all

lemma mannwhitney_loop_rows:
  "mannwhitney_loop lib classes groups balpha ps = Inr rows \<Longrightarrow>
     map (\<lambda>row. (group1 row, group2 row)) rows = map (\<lambda>(i, j). (classes ! i, classes ! j)) ps \<and>
     map (\<lambda>row. Inr (u_statistic row, ph_p_value row)) rows =
       map (\<lambda>(i, j). mannwhitneyu lib (groups ! i) (groups ! j) ''two-sided'') ps \<and>
     (\<forall>row \<in> set rows. ph_significant row = fless (ph_p_value row) balpha)"
proof (induction ps arbitrary: rows)
  case Nil
  then show ?case by simp
next
  case (Cons a ps)
  obtain i j where a: "a = (i, j)" by (cases a)
  from Cons.prems a obtain u p rest where
    mw: "mannwhitneyu lib (groups ! i) (groups ! j) ''two-sided'' = Inr (u, p)" and
    l: "mannwhitney_loop lib classes groups balpha ps = Inr rest" and
    rows: "rows = \<lparr>group1 = classes ! i, group2 = classes ! j, u_statistic = u,
                   ph_p_value = p, ph_significant = fless p balpha\<rparr> # rest"
    by (auto split: if_splits sum.splits prod.splits)
  from Cons.IH[OF l] mw rows a show ?case by simp
qed

lemma posthoc_mannwhitney_Inr:
  assumes "posthoc_mannwhitney lib classes groups = Inr ph"
  shows "\<exists>rows. ph = MannWhitneyU (truediv lib (Fin 0.05) (length classes * (length classes - 1) div 2))
                     (length classes * (length classes - 1) div 2) rows \<and>
           length classes * (length classes - 1) div 2 \<noteq> 0 \<and>
           mannwhitney_loop lib classes groups
             (truediv lib (Fin 0.05) (length classes * (length classes - 1) div 2))
             (index_pairs (length classes)) = Inr rows"
  using assms
  by (auto simp: posthoc_mannwhitney_def Let_def split: if_splits sum.splits)

lemma length_groups_of: "length (groups_of df classes) = length classes"
  by (simp add: groups_of_def)

lemma pairs_of_nth_map:
  "map (\<lambda>(i, j). f (xs ! i) (xs ! j)) (index_pairs (length xs)) = map (\<lambda>(a, b). f a b) (pairs_of xs)"
proof -
  have "map (\<lambda>(a, b). f a b) (map (\<lambda>(i, j). (xs ! i, xs ! j)) (index_pairs (length xs)))
      = map (\<lambda>(a, b). f a b) (pairs_of xs)"
    by (simp only: index_pairs_nth)
  then show ?thesis by (simp add: comp_def case_prod_unfold)
qed

lemma one_way_analysis_posthoc_mw:
  assumes "one_way_analysis lib classes groups = Inr r"
    and "rq1_posthoc r = MannWhitneyU balpha n rows"
  shows "posthoc_mannwhitney lib classes groups = Inr (rq1_posthoc r)"
    and "rq1_test (rq1_result r) = ''Kruskal-Wallis''"
    and "rq1_significant (rq1_result r)"
proof -
  have k: "\<not> (all_normal_of (rq1_normality_results r) \<and> vv_equal_variances (rq1_variance_test r))"
  proof
    assume c: "all_normal_of (rq1_normality_results r) \<and> vv_equal_variances (rq1_variance_test r)"
    show False
    proof (cases "rq1_significant (rq1_result r)")
      case True
      from one_way_analysis_anova(4)[OF assms(1) c True] assms(2) show False
        by (auto split: sum.splits simp: map_sum_def)
    next
      case False
      from one_way_analysis_anova(5)[OF assms(1) c False] assms(2) show False by simp
    qed
  qed
  have s: "rq1_significant (rq1_result r)"
  proof (rule ccontr)
    assume "\<not> rq1_significant (rq1_result r)"
    from one_way_analysis_kruskal(5)[OF assms(1) k this] assms(2) show False by simp
  qed
  show "rq1_significant (rq1_result r)" by (rule s)
  show "rq1_test (rq1_result r) = ''Kruskal-Wallis''"
    by (rule one_way_analysis_kruskal(2)[OF assms(1) k])
  show "posthoc_mannwhitney lib classes groups = Inr (rq1_posthoc r)"
    by (rule one_way_analysis_kruskal(4)[OF assms(1) k s])
qed


lemma set_pairs_of: "(a, b) \<in> set (pairs_of xs) \<Longrightarrow> a \<in> set xs \<and> b \<in> set xs"
  by (induction xs) auto

lemma distinct_pairs_of: "distinct xs \<Longrightarrow> distinct (pairs_of xs)"
proof (induction xs)
  case Nil
  show ?case by simp
next
  case (Cons x xs)
  then show ?case
    by (auto simp: distinct_map inj_on_def dest: set_pairs_of)
qed

lemma pairs_of_one_order:
  "distinct xs \<Longrightarrow> a \<in> set xs \<Longrightarrow> b \<in> set xs \<Longrightarrow> a \<noteq> b \<Longrightarrow>
     ((a, b) \<in> set (pairs_of xs)) \<noteq> ((b, a) \<in> set (pairs_of xs))"
proof (induction xs)
  case Nil
  then show ?case by simp
next
  case (Cons x xs)
  then show ?case
    by (auto dest: set_pairs_of)
qed

lemma distinct_unique: "distinct (unique xs)"
  by (simp add: unique_def)

lemma unique_three: "unique (map rider_class df_three) = [''Sprinter'', ''Climber'', ''Allrounder'']"
  by (simp add: unique_def df_three_def)

lemma groups_three:
  "groups_of df_three [''Sprinter'', ''Climber'', ''Allrounder''] =
     [[Fin 1, Fin 2, Fin 4], [Fin 40, Fin 50, Fin 70], [Fin 9, Fin 10, Fin 14]]"
  by (simp add: groups_of_def df_three_def)

lemma index_pairs_three: "index_pairs (Suc (Suc (Suc 0))) = [(0, 1), (0, 2), (1, 2)]"
  by (simp add: index_pairs_def upt_rec)

lemma rq1_three: "research_question_1 threshold_tie_lib df_three = Inr three_report"
  by (simp add: research_question_1_def unique_three groups_three one_way_analysis_def
        test_normality_def test_variance_homogeneity_def all_normal_of_def
        posthoc_mannwhitney_def index_pairs_three three_report_def shapiro_pass_def
        threshold_tie_lib_def unequal_variance_lib_def demo_lib_def double_div_def
        alpha_default_def fgreater_def Let_def)

lemma test_normality_verdict_cases:
  assumes "test_normality lib data alpha = Inr (Some v)"
  shows "(case nv_p_value v of
            Some p \<Rightarrow> nv_is_normal v = fless alpha p
          | None \<Rightarrow> \<exists>cv. nv_critical_value v = Some cv \<and>
                           nv_is_normal v = fless (nv_statistic v) cv)"
proof (cases "length data > 5000")
  case True
  with assms show ?thesis by (auto simp: test_normality_large)
next
  case False
  then have "length data \<le> 5000" by simp
  with assms show ?thesis by (auto simp: test_normality_small fgreater_def split: if_splits)
qed

lemma unique_tiny: "unique (map rider_class df_tiny) = [''A'', ''B'']"
  by (simp add: unique_def df_tiny_def)

lemma groups_tiny:
  "groups_of df_tiny [''A'', ''B''] = [[Fin 0.1, Fin 0.3], [Fin 0.1, Fin 0.3]]"
  by (simp add: groups_of_def df_tiny_def)

lemma stratum_normality_loop_iff:
  "stratum_normality_loop lib cgs = Inr b \<Longrightarrow>
     b = (\<forall>(c, g) \<in> set cgs. \<forall>v. test_normality lib g alpha_default = Inr (Some v) \<longrightarrow> nv_is_normal v)"
proof (induction cgs)
  case Nil
  then show ?case by simp
next
  case (Cons a cgs)
  obtain c g where a: "a = (c, g)" by (cases a)
  from Cons.prems a obtain res where r: "test_normality lib g alpha_default = Inr res"
    by (auto split: sum.splits)
  show ?case
  proof (cases res)
    case None
    with Cons a r show ?thesis by simp
  next
    case (Some v)
    show ?thesis
    proof (cases "nv_is_normal v")
      case True
      with Cons a r Some show ?thesis by simp
    next
      case False
      with Cons.prems a r Some have "b = False" by simp
      moreover have "\<not> (\<forall>(c, g) \<in> set (a # cgs). \<forall>v. test_normality lib g alpha_default = Inr (Some v) \<longrightarrow> nv_is_normal v)"
        using a r Some False by auto
      ultimately show ?thesis by simp
    qed
  qed
qed

lemma zip_snd_mem:
  "length cs = length gs \<Longrightarrow> (\<exists>c. (c, g) \<in> set (zip cs gs)) \<longleftrightarrow> g \<in> set gs"
  by (metis in_set_impl_in_set_zip2 set_zip_rightD)

lemma length_stratum_groups: "length (stratum_groups df s) = length (stratum_classes df s)"
  by (simp add: stratum_groups_def length_groups_of)

lemma stage_analysis_Inr:
  assumes "stage_analysis lib df s = Inr sr"
  shows "\<exists>b ls lp.
           stratum_normality_loop lib (zip (stratum_classes df s) (stratum_groups df s)) = Inr b \<and>
           levene lib (stratum_groups df s) = Inr (ls, lp) \<and>
           (sr_test sr = ''ANOVA'' \<longleftrightarrow> b \<and> fless (Fin 0.05) lp) \<and>
           (sr_test sr = ''ANOVA'' \<or> sr_test sr = ''Kruskal-Wallis'') \<and>
           (sr_test sr = ''ANOVA'' \<longrightarrow>
              f_oneway lib (stratum_groups df s) = Inr (sr_statistic sr, sr_p_value sr)) \<and>
           (sr_test sr = ''Kruskal-Wallis'' \<longrightarrow>
              kruskal lib (stratum_groups df s) = Inr (sr_statistic sr, sr_p_value sr)) \<and>
           sr_significant sr = fless (sr_p_value sr) (Fin 0.05)"
proof -
  from assms obtain b vt where
    b: "stratum_normality_loop lib (zip (stratum_classes df s) (stratum_groups df s)) = Inr b" and
    vt: "test_variance_homogeneity lib (stratum_groups df s) alpha_default = Inr vt"
    by (auto simp: stage_analysis_def Let_def stratum_groups_def stratum_classes_def
             split: sum.splits)
  from vt obtain ls lp where
    lev: "levene lib (stratum_groups df s) = Inr (ls, lp)" and
    ev: "vv_equal_variances vt = fless (Fin 0.05) lp"
    by (auto simp: tvh_Inr fgreater_def alpha_default_def)
  have rest: "(if b \<and> vv_equal_variances vt
         then (case f_oneway lib (stratum_groups df s) of
                 Inl e \<Rightarrow> Inl e
               | Inr (f_stat, p_val) \<Rightarrow>
                   Inr \<lparr>sr_test = ''ANOVA'', sr_statistic = f_stat, sr_p_value = p_val,
                        sr_significant = fless p_val (Fin 0.05)\<rparr>)
         else (case kruskal lib (stratum_groups df s) of
                 Inl e \<Rightarrow> Inl e
               | Inr (h_stat, p_val) \<Rightarrow>
                   Inr \<lparr>sr_test = ''Kruskal-Wallis'', sr_statistic = h_stat, sr_p_value = p_val,
                        sr_significant = fless p_val (Fin 0.05)\<rparr>)) = Inr sr"
    using assms b vt
    by (auto simp: stage_analysis_def Let_def stratum_groups_def stratum_classes_def
          split: if_splits)
  have "(sr_test sr = ''ANOVA'' \<longleftrightarrow> b \<and> fless (Fin 0.05) lp) \<and>
           (sr_test sr = ''ANOVA'' \<or> sr_test sr = ''Kruskal-Wallis'') \<and>
           (sr_test sr = ''ANOVA'' \<longrightarrow>
              f_oneway lib (stratum_groups df s) = Inr (sr_statistic sr, sr_p_value sr)) \<and>
           (sr_test sr = ''Kruskal-Wallis'' \<longrightarrow>
              kruskal lib (stratum_groups df s) = Inr (sr_statistic sr, sr_p_value sr)) \<and>
           sr_significant sr = fless (sr_p_value sr) (Fin 0.05)"
    using rest ev by (cases "b \<and> vv_equal_variances vt") (auto split: sum.splits prod.splits)
  with b lev show ?thesis by blast
qed

lemma stage_loop_Inr:
  "stage_loop lib df ss = Inr results \<Longrightarrow>
     map fst results = ss \<and> (\<forall>(s, sr) \<in> set results. stage_analysis lib df s = Inr sr)"
proof (induction ss arbitrary: results)
  case Nil
  then show ?case by simp
next
  case (Cons s ss)
  from Cons.prems obtain sr rest where
    "stage_analysis lib df s = Inr sr" "stage_loop lib df ss = Inr rest" "results = (s, sr) # rest"
    by (auto split: sum.splits)
  with Cons.IH[of rest] show ?case by simp
qed

lemma research_question_2_Inr:
  assumes "research_question_2 lib df = Inr r"
  shows "anova_lm_ols lib two_way_formula two_way_typ df = Inr (anova_table_of (rq2_result r))"
    and "loc_PR (anova_table_of (rq2_result r)) ''C(rider_class):C(stage_class)'' = Inr (interaction_p (rq2_result r))"
    and "loc_PR (anova_table_of (rq2_result r)) ''C(rider_class)'' = Inr (rider_main_p (rq2_result r))"
    and "loc_PR (anova_table_of (rq2_result r)) ''C(stage_class)'' = Inr (stage_main_p (rq2_result r))"
    and "fless (interaction_p (rq2_result r)) (Fin 0.05) \<Longrightarrow>
           map_sum id Some (stage_loop lib df (unique (map stage_class df))) = Inr (rq2_stage_results r)"
    and "\<not> fless (interaction_p (rq2_result r)) (Fin 0.05) \<Longrightarrow> rq2_stage_results r = None"
  using assms
  by (auto simp: research_question_2_def split: sum.splits if_splits)

lemma test_normality_posthoc_free:
  "test_normality (lib\<lparr>mannwhitneyu := m, pairwise_tukeyhsd := t\<rparr>) data alpha =
     test_normality lib data alpha"
  by (simp add: test_normality_def Let_def)

lemma stratum_normality_loop_posthoc_free:
  "stratum_normality_loop (lib\<lparr>mannwhitneyu := m, pairwise_tukeyhsd := t\<rparr>) cgs =
     stratum_normality_loop lib cgs"
proof (induction cgs)
  case Nil
  show ?case by simp
next
  case (Cons a cgs)
  obtain c g where "a = (c, g)" by (cases a)
  with Cons show ?case
    by (simp add: test_normality_posthoc_free split: sum.splits option.splits)
qed

lemma stage_analysis_posthoc_free:
  "stage_analysis (lib\<lparr>mannwhitneyu := m, pairwise_tukeyhsd := t\<rparr>) df s = stage_analysis lib df s"
  by (simp add: stage_analysis_def stratum_normality_loop_posthoc_free
        test_variance_homogeneity_def Let_def split: sum.splits prod.splits)

lemma stage_loop_posthoc_free:
  "stage_loop (lib\<lparr>mannwhitneyu := m, pairwise_tukeyhsd := t\<rparr>) df ss = stage_loop lib df ss"
  by (induction ss) (simp_all add: stage_analysis_posthoc_free split: sum.splits)

lemma research_question_2_posthoc_free:
  "research_question_2 (lib\<lparr>mannwhitneyu := m, pairwise_tukeyhsd := t\<rparr>) df =
     research_question_2 lib df"
  by (simp add: research_question_2_def stage_loop_posthoc_free split: sum.splits)

lemma unique_stages: "unique (map stage_class df_strata) = [''flat'', ''mountain'']"
  by (simp add: unique_def df_strata_def)

lemma filter_flat: "filter (\<lambda>ob. stage_class ob = ''flat'') df_strata = df_two_small"
  by (simp add: df_strata_def df_two_small_def)

lemma unique_mountain:
  "unique (map rider_class (filter (\<lambda>ob. stage_class ob = ''mountain'') df_strata)) = [''A'', ''B'']"
  by (simp add: unique_def df_strata_def)

lemma groups_mountain:
  "groups_of (filter (\<lambda>ob. stage_class ob = ''mountain'') df_strata) [''A'', ''B''] =
     [[Fin 10, Fin 20, Fin 30], [Fin 30, Fin 20, Fin 11]]"
  by (simp add: groups_of_def df_strata_def)

lemma stage_flat_demo:
  "stage_analysis demo_lib df_strata ''flat'' =
     Inr \<lparr>sr_test = ''ANOVA'', sr_statistic = Fin 0.1, sr_p_value = Fin 0.9,
          sr_significant = False\<rparr>"
  by (simp add: stage_analysis_def filter_flat unique_two_small groups_two_small
        test_normality_def test_variance_homogeneity_def
        demo_lib_def alpha_default_def fgreater_def)

lemma stage_mountain_demo:
  "stage_analysis demo_lib df_strata ''mountain'' =
     Inr \<lparr>sr_test = ''ANOVA'', sr_statistic = Fin 0.1, sr_p_value = Fin 0.9,
          sr_significant = False\<rparr>"
  by (simp add: stage_analysis_def unique_mountain groups_mountain
        test_normality_def test_variance_homogeneity_def
        demo_lib_def alpha_default_def fgreater_def)

lemma loc_demo_table:
  "loc_PR demo_table ''C(rider_class):C(stage_class)'' = Inr (Fin 0.01)"
  "loc_PR demo_table ''C(rider_class)'' = Inr (Fin 0.002)"
  "loc_PR demo_table ''C(stage_class)'' = Inr (Fin 0.2)"
  by (simp_all add: loc_PR_def demo_table_def demo_row_def)

lemma rq2_strata_demo:
  "research_question_2 demo_lib df_strata =
     Inr \<lparr>rq2_stage_results = Some
            [(''flat'', \<lparr>sr_test = ''ANOVA'', sr_statistic = Fin 0.1, sr_p_value = Fin 0.9,
                         sr_significant = False\<rparr>),
             (''mountain'', \<lparr>sr_test = ''ANOVA'', sr_statistic = Fin 0.1, sr_p_value = Fin 0.9,
                             sr_significant = False\<rparr>)],
          rq2_result = \<lparr>interaction_p = Fin 0.01, rider_main_p = Fin 0.002,
                         stage_main_p = Fin 0.2, anova_table_of = demo_table\<rparr>\<rparr>"
proof -
  have t: "anova_lm_ols demo_lib two_way_formula two_way_typ df_strata = Inr demo_table"
    by (simp add: demo_lib_def)
  show ?thesis
    by (simp add: research_question_2_def t loc_demo_table unique_stages
          stage_flat_demo stage_mountain_demo)
qed


lemma stage_analysis_selection:
  assumes "stage_analysis lib df s = Inr sr"
  shows "\<exists>ls lp. levene lib (stratum_groups df s) = Inr (ls, lp) \<and>
           (sr_test sr = ''ANOVA'' \<longleftrightarrow>
              (\<forall>g \<in> set (stratum_groups df s). \<forall>v.
                 test_normality lib g alpha_default = Inr (Some v) \<longrightarrow> nv_is_normal v) \<and>
              fless (Fin 0.05) lp)"
proof -
  from stage_analysis_Inr[OF assms] obtain b ls lp where
    b: "stratum_normality_loop lib (zip (stratum_classes df s) (stratum_groups df s)) = Inr b" and
    lev: "levene lib (stratum_groups df s) = Inr (ls, lp)" and
    sel: "sr_test sr = ''ANOVA'' \<longleftrightarrow> b \<and> fless (Fin 0.05) lp"
    by blast
  have "b = (\<forall>g \<in> set (stratum_groups df s). \<forall>v.
                 test_normality lib g alpha_default = Inr (Some v) \<longrightarrow> nv_is_normal v)"
    unfolding stratum_normality_loop_iff[OF b]
    using zip_snd_mem[OF length_stratum_groups[symmetric], of _ df s]
    by fast
  with lev sel show ?thesis by blast
qed

lemma one_way_selection_groups:
  assumes "one_way_analysis lib cs gs = Inr r" and "length cs = length gs"
  shows "rq1_test (rq1_result r) = ''ANOVA'' \<longleftrightarrow>
        (\<exists>g \<in> set gs. \<exists>v. test_normality lib g alpha_default = Inr (Some v)) \<and>
        (\<forall>g \<in> set gs. \<forall>v. test_normality lib g alpha_default = Inr (Some v) \<longrightarrow> nv_is_normal v) \<and>
        vv_equal_variances (rq1_variance_test r)"
proof -
  let ?nr = "rq1_normality_results r"
  note nl = one_way_analysis_fields(1)[OF assms(1)]
  have mem: "\<And>v. (\<exists>c. (c, v) \<in> set ?nr) \<longleftrightarrow>
      (\<exists>g \<in> set gs. test_normality lib g alpha_default = Inr (Some v))"
    using normality_loop_mem[OF nl] zip_snd_mem[OF assms(2)] by blast
  have ne: "?nr \<noteq> [] \<longleftrightarrow> (\<exists>g \<in> set gs. \<exists>v. test_normality lib g alpha_default = Inr (Some v))"
  proof -
    have "?nr \<noteq> [] \<longleftrightarrow> (\<exists>c v. (c, v) \<in> set ?nr)"
      by (cases ?nr) auto
    with mem show ?thesis by blast
  qed
  have al: "(\<forall>(c, v) \<in> set ?nr. nv_is_normal v) \<longleftrightarrow>
      (\<forall>g \<in> set gs. \<forall>v. test_normality lib g alpha_default = Inr (Some v) \<longrightarrow> nv_is_normal v)"
    using mem by fast
  have "rq1_test (rq1_result r) = ''ANOVA'' \<longleftrightarrow>
      all_normal_of ?nr \<and> vv_equal_variances (rq1_variance_test r)"
    using one_way_analysis_anova(2)[OF assms(1)] one_way_analysis_kruskal(2)[OF assms(1)]
    by (cases "all_normal_of ?nr \<and> vv_equal_variances (rq1_variance_test r)") auto
  then show ?thesis
    by (simp add: all_normal_of_iff ne al)
qed

lemma research_question_2_stages:
  assumes "research_question_2 lib df = Inr r" and "rq2_stage_results r = Some results"
  shows "fless (interaction_p (rq2_result r)) (Fin 0.05)"
    and "stage_loop lib df (unique (map stage_class df)) = Inr results"
proof -
  show i: "fless (interaction_p (rq2_result r)) (Fin 0.05)"
    using research_question_2_Inr(6)[OF assms(1)] assms(2) by auto
  from research_question_2_Inr(5)[OF assms(1) i] assms(2)
  show "stage_loop lib df (unique (map stage_class df)) = Inr results"
    by (cases "stage_loop lib df (unique (map stage_class df))") auto
qed

lemma rq2_strata_probe:
  "research_question_2 posthoc_probe_lib df_strata =
     Inr \<lparr>rq2_stage_results = Some
            [(''flat'', \<lparr>sr_test = ''Kruskal-Wallis'', sr_statistic = Fin 9,
                         sr_p_value = Fin 0.01, sr_significant = True\<rparr>),
             (''mountain'', \<lparr>sr_test = ''Kruskal-Wallis'', sr_statistic = Fin 9,
                             sr_p_value = Fin 0.01, sr_significant = True\<rparr>)],
          rq2_result = \<lparr>interaction_p = Fin 0.01, rider_main_p = Fin 0.002,
                         stage_main_p = Fin 0.2, anova_table_of = demo_table\<rparr>\<rparr>"
proof -
  have t: "anova_lm_ols posthoc_probe_lib two_way_formula two_way_typ df_strata = Inr demo_table"
    by (simp add: posthoc_probe_lib_def unequal_variance_lib_def demo_lib_def)
  have f: "stage_analysis posthoc_probe_lib df_strata ''flat'' =
     Inr \<lparr>sr_test = ''Kruskal-Wallis'', sr_statistic = Fin 9, sr_p_value = Fin 0.01,
          sr_significant = True\<rparr>"
    by (simp add: stage_analysis_def filter_flat unique_two_small groups_two_small
        test_normality_def test_variance_homogeneity_def
        posthoc_probe_lib_def unequal_variance_lib_def demo_lib_def alpha_default_def fgreater_def)
  have m: "stage_analysis posthoc_probe_lib df_strata ''mountain'' =
     Inr \<lparr>sr_test = ''Kruskal-Wallis'', sr_statistic = Fin 9, sr_p_value = Fin 0.01,
          sr_significant = True\<rparr>"
    by (simp add: stage_analysis_def unique_mountain groups_mountain
        test_normality_def test_variance_homogeneity_def
        posthoc_probe_lib_def unequal_variance_lib_def demo_lib_def alpha_default_def fgreater_def)
  show ?thesis
    by (simp add: research_question_2_def t loc_demo_table unique_stages f m)
qed

lemma index_pairs_two: "index_pairs (Suc (Suc 0)) = [(0, 1)]"
  by (simp add: index_pairs_def upt_rec)

lemma rq1_flat_probe:
  "research_question_1 posthoc_probe_lib (filter (\<lambda>ob. stage_class ob = ''flat'') df_strata) =
     Inl (LibraryError ''mannwhitneyu called'')"
  by (simp add: filter_flat research_question_1_def unique_two_small groups_two_small
        one_way_analysis_def test_normality_def test_variance_homogeneity_def all_normal_of_def
        posthoc_mannwhitney_def index_pairs_two Let_def double_div_def
        posthoc_probe_lib_def unequal_variance_lib_def demo_lib_def alpha_default_def fgreater_def)

lemma loc_PR_Inr: "loc_PR tbl label = Inr p \<longleftrightarrow> (\<exists>row. map_of tbl label = Some row \<and> PR_F row = p)"
  by (auto simp: loc_PR_def split: option.splits)











lemma mset_zip_fst:
  "length cs = length gs \<Longrightarrow> length cs' = length gs' \<Longrightarrow>
     mset (zip cs' gs') = mset (zip cs gs) \<Longrightarrow> mset cs' = mset cs"
proof -
  assume l: "length cs = length gs" and l': "length cs' = length gs'"
    and m: "mset (zip cs' gs') = mset (zip cs gs)"
  from m have "mset (map fst (zip cs' gs')) = mset (map fst (zip cs gs))" by simp
  with l l' show ?thesis by simp
qed

lemma tukey_rows:
  "length cs = length gs \<Longrightarrow>
     zip (tukey_data gs) (tukey_labels cs gs) = concat (map (\<lambda>(c, g). map (\<lambda>x. (x, c)) g) (zip cs gs))
     \<and> length (tukey_data gs) = length (tukey_labels cs gs)"
proof (induction cs gs rule: list_induct2)
  case Nil
  show ?case by (simp add: tukey_data_def tukey_labels_def)
next
  case (Cons c cs g gs)
  then show ?case
    by (simp add: tukey_data_def tukey_labels_def zip_replicate2)
qed




















section \<open>The claims\<close>

text \<open>
  Claim C6. A sample of more than 5000 values goes to the Anderson-Darling routine: whenever
  \<^verbatim>\<open>test_normality\<close> returns, it returns a dictionary with a null p-value, the statistic
  and the last critical value (the 1\% level, the strictest one SciPy tabulates), and
  \<^verbatim>\<open>is_normal\<close> is true iff the statistic is strictly below that critical value; it does
  return one whenever the routine returns. A verdict for a sample of at most 5000 values is
  a Shapiro-Wilk verdict computed on the finite values.
\<close>

theorem large_sample_uses_anderson_darling:
  "(5000 < length data \<longrightarrow>
      (\<forall>res. test_normality lib data alpha = Inr res \<longrightarrow>
         (\<exists>stat cvs. anderson lib data = Inr (stat, cvs) \<and> cvs \<noteq> [] \<and>
            res = Some \<lparr>nv_test = ''Anderson-Darling'', nv_statistic = stat,
                         nv_critical_value = Some (last cvs), nv_p_value = None,
                         nv_is_normal = fless stat (last cvs), nv_alpha = alpha\<rparr>)) \<and>
      (\<forall>stat cvs. anderson lib data = Inr (stat, cvs) \<and> cvs \<noteq> [] \<longrightarrow>
         (\<exists>v. test_normality lib data alpha = Inr (Some v)))) \<and>
   (length data \<le> 5000 \<longrightarrow>
      (\<forall>v. test_normality lib data alpha = Inr (Some v) \<longrightarrow>
         (\<exists>stat p. shapiro lib (filter isfinite data) = Inr (stat, p) \<and>
            v = \<lparr>nv_test = ''Shapiro-Wilk'', nv_statistic = stat,
                  nv_critical_value = None, nv_p_value = Some p,
                  nv_is_normal = fgreater p alpha, nv_alpha = alpha\<rparr>)))"
proof (intro conjI impI allI)
  fix res assume "5000 < length data" "test_normality lib data alpha = Inr res"
  then show "\<exists>stat cvs. anderson lib data = Inr (stat, cvs) \<and> cvs \<noteq> [] \<and>
            res = Some \<lparr>nv_test = ''Anderson-Darling'', nv_statistic = stat,
                         nv_critical_value = Some (last cvs), nv_p_value = None,
                         nv_is_normal = fless stat (last cvs), nv_alpha = alpha\<rparr>"
    by (simp add: test_normality_large)
next
  fix stat cvs assume "5000 < length data" "anderson lib data = Inr (stat, cvs) \<and> cvs \<noteq> []"
  then show "\<exists>v. test_normality lib data alpha = Inr (Some v)"
    by (simp add: test_normality_large)
next
  fix v assume "length data \<le> 5000" "test_normality lib data alpha = Inr (Some v)"
  then show "\<exists>stat p. shapiro lib (filter isfinite data) = Inr (stat, p) \<and>
            v = \<lparr>nv_test = ''Shapiro-Wilk'', nv_statistic = stat,
                  nv_critical_value = None, nv_p_value = Some p,
                  nv_is_normal = fgreater p alpha, nv_alpha = alpha\<rparr>"
    by (auto simp: test_normality_small split: if_splits)
qed

theorem large_sample_uses_anderson_darling_witness:
  "5000 < length (replicate 5001 (Fin 0)) \<and>
   test_normality demo_lib (replicate 5001 (Fin 0)) alpha_default =
     Inr (Some \<lparr>nv_test = ''Anderson-Darling'', nv_statistic = Fin 0.3,
                 nv_critical_value = Some (Fin 1.092), nv_p_value = None,
                 nv_is_normal = True, nv_alpha = Fin 0.05\<rparr>) \<and>
   length [Fin 1, Fin 2, Fin 3] \<le> 5000 \<and>
   test_normality demo_lib [Fin 1, Fin 2, Fin 3] alpha_default =
     Inr (Some \<lparr>nv_test = ''Shapiro-Wilk'', nv_statistic = Fin 0.98,
                 nv_critical_value = None, nv_p_value = Some (Fin 0.8),
                 nv_is_normal = True, nv_alpha = Fin 0.05\<rparr>)"
  using large_sample_uses_anderson_darling [of "replicate 5001 (Fin 0)" demo_lib alpha_default]
        large_sample_uses_anderson_darling [of "[Fin 1, Fin 2, Fin 3]" demo_lib alpha_default]
  by (simp add: test_normality_def demo_lib_def anderson_critical_values_def alpha_default_def
        fgreater_def list_all_iff)

text \<open>
  Claim C7. For a sample of at most 5000 values \<^verbatim>\<open>test_normality\<close> keeps the finite
  values only; with fewer than 3 of them it returns \<^verbatim>\<open>None\<close>, with 3 or more it never
  does and the verdict is Shapiro-Wilk's on the finite values. The variance check and the
  main test have no size condition: \<^verbatim>\<open>test_variance_homogeneity\<close> returns a verdict for
  whatever groups Levene's routine answers on, and \<^verbatim>\<open>research_question_1\<close> hands every
  group of the data frame, also one without a normality verdict, to Levene's routine and to
  the main test.
\<close>

theorem insufficient_data_gives_no_verdict:
  "(length data \<le> 5000 \<and> length (filter isfinite data) < 3 \<longrightarrow>
      test_normality lib data alpha = Inr None) \<and>
   (length data \<le> 5000 \<and> 3 \<le> length (filter isfinite data) \<longrightarrow>
      test_normality lib data alpha \<noteq> Inr None \<and>
      (\<forall>stat p. shapiro lib (filter isfinite data) = Inr (stat, p) \<longrightarrow>
         test_normality lib data alpha =
           Inr (Some \<lparr>nv_test = ''Shapiro-Wilk'', nv_statistic = stat,
                       nv_critical_value = None, nv_p_value = Some p,
                       nv_is_normal = fgreater p alpha, nv_alpha = alpha\<rparr>))) \<and>
   (\<forall>stat p. levene lib groups = Inr (stat, p) \<longrightarrow>
      test_variance_homogeneity lib groups alpha =
        Inr \<lparr>vv_test = ''Levene's'', vv_statistic = stat, vv_p_value = p,
             vv_equal_variances = fgreater p alpha, vv_alpha = alpha\<rparr>) \<and>
   (\<forall>r. research_question_1 lib df = Inr r \<longrightarrow>
      levene lib (rq1_groups r) =
        Inr (vv_statistic (rq1_variance_test r), vv_p_value (rq1_variance_test r)) \<and>
      (f_oneway lib (rq1_groups r) = Inr (rq1_statistic (rq1_result r), rq1_p_value (rq1_result r))
       \<or> kruskal lib (rq1_groups r) = Inr (rq1_statistic (rq1_result r), rq1_p_value (rq1_result r))) \<and>
      rq1_groups r = groups_of df (unique (map rider_class df)))"
proof (intro conjI impI allI)
  assume "length data \<le> 5000 \<and> length (filter isfinite data) < 3"
  then show "test_normality lib data alpha = Inr None"
    by (simp add: test_normality_small)
next
  assume "length data \<le> 5000 \<and> 3 \<le> length (filter isfinite data)"
  then show "test_normality lib data alpha \<noteq> Inr None"
    by (simp add: test_normality_small)
next
  fix stat p
  assume "length data \<le> 5000 \<and> 3 \<le> length (filter isfinite data)"
    and "shapiro lib (filter isfinite data) = Inr (stat, p)"
  then show "test_normality lib data alpha =
           Inr (Some \<lparr>nv_test = ''Shapiro-Wilk'', nv_statistic = stat,
                       nv_critical_value = None, nv_p_value = Some p,
                       nv_is_normal = fgreater p alpha, nv_alpha = alpha\<rparr>)"
    by (simp add: test_normality_small)
next
  fix stat p assume "levene lib groups = Inr (stat, p)"
  then show "test_variance_homogeneity lib groups alpha =
        Inr \<lparr>vv_test = ''Levene's'', vv_statistic = stat, vv_p_value = p,
             vv_equal_variances = fgreater p alpha, vv_alpha = alpha\<rparr>"
    by (simp add: tvh_Inr)
next
  fix r assume r: "research_question_1 lib df = Inr r"
  note owa = research_question_1_fields(3)[OF r]
  from one_way_analysis_fields(2)[OF owa]
  show "levene lib (rq1_groups r) =
        Inr (vv_statistic (rq1_variance_test r), vv_p_value (rq1_variance_test r))"
    by (auto simp: tvh_Inr)
  from one_way_analysis_main_test[OF owa]
  show "f_oneway lib (rq1_groups r) = Inr (rq1_statistic (rq1_result r), rq1_p_value (rq1_result r))
       \<or> kruskal lib (rq1_groups r) = Inr (rq1_statistic (rq1_result r), rq1_p_value (rq1_result r))"
    by blast
  show "rq1_groups r = groups_of df (unique (map rider_class df))"
    by (rule research_question_1_fields(2)[OF r])
qed

theorem insufficient_data_gives_no_verdict_witness:
  "length [Fin 1, Fin 3] \<le> 5000 \<and> length (filter isfinite [Fin 1, Fin 3]) < 3 \<and>
   test_normality demo_lib [Fin 1, Fin 3] alpha_default = Inr None \<and>
   test_variance_homogeneity demo_lib [[Fin 1, Fin 3], [Fin 1, Fin 2, Fin 3]] alpha_default =
     Inr \<lparr>vv_test = ''Levene's'', vv_statistic = Fin 0.6, vv_p_value = Fin 0.5,
          vv_equal_variances = True, vv_alpha = Fin 0.05\<rparr> \<and>
   f_oneway demo_lib [[Fin 1, Fin 3], [Fin 1, Fin 2, Fin 3]] = Inr (Fin 0.1, Fin 0.9)"
  using insufficient_data_gives_no_verdict
          [of "[Fin 1, Fin 3]" demo_lib alpha_default "[[Fin 1, Fin 3], [Fin 1, Fin 2, Fin 3]]" df_two_small]
        rq1_two_small
  by (simp add: demo_lib_def alpha_default_def fgreater_def unique_two_small groups_two_small)

text \<open>
  Claim C10. For a sample of more than 5000 values \<^verbatim>\<open>test_normality\<close> never returns
  \<^verbatim>\<open>None\<close>: the data go to the Anderson-Darling routine unfiltered, whatever the routine
  answers becomes the verdict, an exception can only come from that routine (or from an
  empty array of critical values), and the Shapiro-Wilk branch with its filter and its
  minimum of 3 finite values plays no part.
\<close>

theorem large_sample_always_has_verdict:
  "5000 < length data \<longrightarrow>
     test_normality lib data alpha \<noteq> Inr None \<and>
     (\<forall>stat cvs. anderson lib data = Inr (stat, cvs) \<and> cvs \<noteq> [] \<longrightarrow>
        test_normality lib data alpha =
          Inr (Some \<lparr>nv_test = ''Anderson-Darling'', nv_statistic = stat,
                      nv_critical_value = Some (last cvs), nv_p_value = None,
                      nv_is_normal = fless stat (last cvs), nv_alpha = alpha\<rparr>)) \<and>
     (\<forall>e. test_normality lib data alpha = Inl e \<longrightarrow>
        anderson lib data = Inl e \<or> (\<exists>stat. anderson lib data = Inr (stat, []))) \<and>
     (\<forall>s. test_normality (lib\<lparr>shapiro := s\<rparr>) data alpha = test_normality lib data alpha)"
proof (intro conjI impI allI)
  assume big: "5000 < length data"
  show "test_normality lib data alpha \<noteq> Inr None"
    using big by (simp add: test_normality_large)
  show "\<And>s. test_normality (lib\<lparr>shapiro := s\<rparr>) data alpha = test_normality lib data alpha"
    using big by (simp add: test_normality_def)
  show "\<And>e. test_normality lib data alpha = Inl e \<Longrightarrow>
        anderson lib data = Inl e \<or> (\<exists>stat. anderson lib data = Inr (stat, []))"
    using big by (auto simp: test_normality_Inl)
  show "\<And>stat cvs. anderson lib data = Inr (stat, cvs) \<and> cvs \<noteq> [] \<Longrightarrow>
        test_normality lib data alpha =
          Inr (Some \<lparr>nv_test = ''Anderson-Darling'', nv_statistic = stat,
                      nv_critical_value = Some (last cvs), nv_p_value = None,
                      nv_is_normal = fless stat (last cvs), nv_alpha = alpha\<rparr>)"
    using big by (simp add: test_normality_large)
qed

theorem large_sample_always_has_verdict_witness:
  "5000 < length (replicate 5001 NaN) \<and>
   filter isfinite (replicate 5001 NaN) = [] \<and>
   test_normality demo_lib (replicate 5001 NaN) alpha_default =
     Inr (Some \<lparr>nv_test = ''Anderson-Darling'', nv_statistic = NaN,
                 nv_critical_value = Some (Fin 1.092), nv_p_value = None,
                 nv_is_normal = False, nv_alpha = Fin 0.05\<rparr>)"
  using large_sample_always_has_verdict [of "replicate 5001 NaN" demo_lib alpha_default]
  by (simp add: demo_lib_def anderson_critical_values_def alpha_default_def list_all_iff)

text \<open>
  Claim C8 says that the two checks fail with a descriptive error on an empty sample and on
  two constant groups with distinct means. They do not: the empty sample gives
  \<^verbatim>\<open>None\<close>, and the constant groups give a verdict whose statistic and p-value are NaN.
\<close>

theorem checks_fail_descriptively_counterexample:
  "test_normality demo_lib [] alpha_default = Inr None \<and>
   test_variance_homogeneity degenerate_lib
       [[Fin 1, Fin 1, Fin 1, Fin 1, Fin 1], [Fin 100, Fin 100, Fin 100, Fin 100, Fin 100]]
       alpha_default =
     Inr \<lparr>vv_test = ''Levene's'', vv_statistic = NaN, vv_p_value = NaN,
          vv_equal_variances = False, vv_alpha = Fin 0.05\<rparr>"
  by (simp add: test_normality_def test_variance_homogeneity_def degenerate_lib_def demo_lib_def
        constant_group_def alpha_default_def fgreater_def)

text \<open>
  Claim C8 as amended. The checks validate nothing and raise nothing of their own:
  \<^verbatim>\<open>test_normality\<close> returns \<^verbatim>\<open>None\<close> for the empty sample;
  \<^verbatim>\<open>test_variance_homogeneity\<close> wraps whatever Levene's routine reports, a NaN p-value
  included (the verdict is then "not equal", since NaN > alpha is false); and either check
  raises exactly when the routine it calls raises (or, for Anderson-Darling, returns no
  critical value), the exception leaving the check as it is.
\<close>

theorem checks_do_not_validate:
  "test_normality lib [] alpha = Inr None \<and>
   (\<forall>stat p. levene lib groups = Inr (stat, p) \<longrightarrow>
      test_variance_homogeneity lib groups alpha =
        Inr \<lparr>vv_test = ''Levene's'', vv_statistic = stat, vv_p_value = p,
             vv_equal_variances = fgreater p alpha, vv_alpha = alpha\<rparr>) \<and>
   (\<forall>stat. levene lib groups = Inr (stat, NaN) \<longrightarrow>
      test_variance_homogeneity lib groups alpha =
        Inr \<lparr>vv_test = ''Levene's'', vv_statistic = stat, vv_p_value = NaN,
             vv_equal_variances = False, vv_alpha = alpha\<rparr>) \<and>
   (\<forall>e. (test_variance_homogeneity lib groups alpha = Inl e) = (levene lib groups = Inl e)) \<and>
   (\<forall>e. test_normality lib data alpha = Inl e \<longrightarrow>
      anderson lib data = Inl e \<or> shapiro lib (filter isfinite data) = Inl e \<or>
      (e = IndexError \<and> (\<exists>stat. anderson lib data = Inr (stat, []))))"
proof (intro conjI impI allI)
  show "test_normality lib [] alpha = Inr None"
    by (simp add: test_normality_def)
  show "\<And>stat p. levene lib groups = Inr (stat, p) \<Longrightarrow>
      test_variance_homogeneity lib groups alpha =
        Inr \<lparr>vv_test = ''Levene's'', vv_statistic = stat, vv_p_value = p,
             vv_equal_variances = fgreater p alpha, vv_alpha = alpha\<rparr>"
    by (simp add: tvh_Inr)
  show "\<And>stat. levene lib groups = Inr (stat, NaN) \<Longrightarrow>
      test_variance_homogeneity lib groups alpha =
        Inr \<lparr>vv_test = ''Levene's'', vv_statistic = stat, vv_p_value = NaN,
             vv_equal_variances = False, vv_alpha = alpha\<rparr>"
    by (simp add: tvh_Inr fgreater_def)
  show "\<And>e. (test_variance_homogeneity lib groups alpha = Inl e) = (levene lib groups = Inl e)"
    by (rule tvh_Inl)
  show "\<And>e. test_normality lib data alpha = Inl e \<Longrightarrow>
      anderson lib data = Inl e \<or> shapiro lib (filter isfinite data) = Inl e \<or>
      (e = IndexError \<and> (\<exists>stat. anderson lib data = Inr (stat, [])))"
    by (auto simp: test_normality_Inl split: if_splits)
qed

theorem checks_do_not_validate_witness:
  "levene degenerate_lib
       [[Fin 1, Fin 1, Fin 1, Fin 1, Fin 1], [Fin 100, Fin 100, Fin 100, Fin 100, Fin 100]]
     = Inr (NaN, NaN) \<and>
   test_variance_homogeneity degenerate_lib
       [[Fin 1, Fin 1, Fin 1, Fin 1, Fin 1], [Fin 100, Fin 100, Fin 100, Fin 100, Fin 100]]
       alpha_default =
     Inr \<lparr>vv_test = ''Levene's'', vv_statistic = NaN, vv_p_value = NaN,
          vv_equal_variances = False, vv_alpha = alpha_default\<rparr>"
  using checks_do_not_validate
          [of degenerate_lib alpha_default
              "[[Fin 1, Fin 1, Fin 1, Fin 1, Fin 1], [Fin 100, Fin 100, Fin 100, Fin 100, Fin 100]]" "[]"]
  by (simp add: degenerate_lib_def demo_lib_def constant_group_def fgreater_def
        test_variance_homogeneity_def)

text \<open>
  Claim C3. Whenever \<^verbatim>\<open>research_question_1\<close> runs the rank-sum post-hoc block over
  \<open>k\<close> rider classes: the number of comparisons is \<open>k (k - 1) / 2\<close> (and not 0), the
  corrected alpha is what the double division of 0.05 by that number returns, there is
  exactly one row per unordered pair of labels in first-appearance order (the labels are
  distinct, so every two of them meet in exactly one row), each row holds the result of
  \<^verbatim>\<open>mannwhitneyu\<close> on the two groups with \<^verbatim>\<open>alternative='two-sided'\<close>, and its flag is
  true iff its p-value is strictly below the corrected alpha. The block runs only after a
  significant Kruskal-Wallis test. In the concrete run every p-value is the double
  0.016666666666666666: it is below 0.05 and below the real quotient 1/60, it equals the
  corrected alpha, and no row is flagged.
\<close>

theorem bonferroni_posthoc:
  assumes "research_question_1 lib df = Inr r"
    and "rq1_posthoc r = MannWhitneyU balpha n rows"
  shows "n = length (rq1_rider_classes r) * (length (rq1_rider_classes r) - 1) div 2 \<and>
         n \<noteq> 0 \<and>
         balpha = truediv lib (Fin 0.05) n \<and>
         length rows = n \<and>
         map (\<lambda>row. (group1 row, group2 row)) rows = pairs_of (rq1_rider_classes r) \<and>
         map (\<lambda>row. Inr (u_statistic row, ph_p_value row)) rows =
           map (\<lambda>(a, b). mannwhitneyu lib a b ''two-sided'') (pairs_of (rq1_groups r)) \<and>
         (\<forall>row \<in> set rows. ph_significant row = fless (ph_p_value row) balpha) \<and>
         rq1_rider_classes r = unique (map rider_class df) \<and>
         distinct (pairs_of (rq1_rider_classes r)) \<and>
         (\<forall>a \<in> set (rq1_rider_classes r). \<forall>b \<in> set (rq1_rider_classes r). a \<noteq> b \<longrightarrow>
            ((a, b) \<in> set (pairs_of (rq1_rider_classes r))) \<noteq>
            ((b, a) \<in> set (pairs_of (rq1_rider_classes r)))) \<and>
         rq1_test (rq1_result r) = ''Kruskal-Wallis'' \<and> rq1_significant (rq1_result r)"
proof -
  let ?cs = "rq1_rider_classes r" and ?gs = "rq1_groups r"
  note owa = research_question_1_fields(3)[OF assms(1)]
  have cs: "?cs = unique (map rider_class df)"
    by (rule research_question_1_fields(1)[OF assms(1)])
  have len: "length ?gs = length ?cs"
    using research_question_1_fields(1,2)[OF assms(1)] by (simp add: length_groups_of)
  have d: "distinct ?cs" by (simp add: cs distinct_unique)
  from posthoc_mannwhitney_Inr[OF one_way_analysis_posthoc_mw(1)[OF owa assms(2)]] assms(2)
  have n: "n = length ?cs * (length ?cs - 1) div 2" and n0: "n \<noteq> 0"
    and b: "balpha = truediv lib (Fin 0.05) n"
    and loop: "mannwhitney_loop lib ?cs ?gs balpha (index_pairs (length ?cs)) = Inr rows"
    by auto
  note rows = mannwhitney_loop_rows[OF loop]
  have labels: "map (\<lambda>row. (group1 row, group2 row)) rows = pairs_of ?cs"
    using rows by (simp add: index_pairs_nth)
  have calls: "map (\<lambda>row. Inr (u_statistic row, ph_p_value row)) rows =
           map (\<lambda>(a, b). mannwhitneyu lib a b ''two-sided'') (pairs_of ?gs)"
    using rows pairs_of_nth_map[of "\<lambda>a b. mannwhitneyu lib a b ''two-sided''" ?gs] by (simp add: len)
  have "length rows = length (pairs_of ?cs)"
    using labels by (metis length_map)
  then have lr: "length rows = n" by (simp add: length_pairs_of n)
  have sig: "\<forall>row \<in> set rows. ph_significant row = fless (ph_p_value row) balpha"
    using rows by simp
  have once: "\<forall>a \<in> set ?cs. \<forall>b \<in> set ?cs. a \<noteq> b \<longrightarrow>
            ((a, b) \<in> set (pairs_of ?cs)) \<noteq> ((b, a) \<in> set (pairs_of ?cs))"
    using pairs_of_one_order[OF d] by blast
  show ?thesis
    using n n0 b lr labels calls sig cs distinct_pairs_of[OF d] once
      one_way_analysis_posthoc_mw(2,3)[OF owa assms(2)]
    by (intro conjI)
qed

theorem bonferroni_posthoc_witness:
  "research_question_1 threshold_tie_lib df_three = Inr three_report \<and>
   rq1_posthoc three_report = MannWhitneyU (Fin double_0_05_div_3) 3
        [\<lparr>group1 = ''Sprinter'', group2 = ''Climber'', u_statistic = Fin 0,
          ph_p_value = Fin double_0_05_div_3, ph_significant = False\<rparr>,
         \<lparr>group1 = ''Sprinter'', group2 = ''Allrounder'', u_statistic = Fin 0,
          ph_p_value = Fin double_0_05_div_3, ph_significant = False\<rparr>,
         \<lparr>group1 = ''Climber'', group2 = ''Allrounder'', u_statistic = Fin 0,
          ph_p_value = Fin double_0_05_div_3, ph_significant = False\<rparr>] \<and>
   truediv threshold_tie_lib (Fin 0.05) 3 = Fin double_0_05_div_3 \<and>
   (3::nat) = length (rq1_rider_classes three_report) * (length (rq1_rider_classes three_report) - 1) div 2 \<and>
   pairs_of (rq1_rider_classes three_report) =
     [(''Sprinter'', ''Climber''), (''Sprinter'', ''Allrounder''), (''Climber'', ''Allrounder'')] \<and>
   fless (Fin double_0_05_div_3) (Fin 0.05) \<and>
   fless (Fin double_0_05_div_3) (Fin (0.05 / 3)) \<and>
   \<not> fless (Fin double_0_05_div_3) (truediv threshold_tie_lib (Fin 0.05) 3)"
  using bonferroni_posthoc [OF rq1_three, of "Fin double_0_05_div_3" 3
        "[\<lparr>group1 = ''Sprinter'', group2 = ''Climber'', u_statistic = Fin 0,
          ph_p_value = Fin double_0_05_div_3, ph_significant = False\<rparr>,
         \<lparr>group1 = ''Sprinter'', group2 = ''Allrounder'', u_statistic = Fin 0,
          ph_p_value = Fin double_0_05_div_3, ph_significant = False\<rparr>,
         \<lparr>group1 = ''Climber'', group2 = ''Allrounder'', u_statistic = Fin 0,
          ph_p_value = Fin double_0_05_div_3, ph_significant = False\<rparr>]"]
        rq1_three
  by (simp add: three_report_def unique_three threshold_tie_lib_def unequal_variance_lib_def
        demo_lib_def double_div_def)
     (simp add: double_0_05_div_3_def)

text \<open>
  Claim C1 says that the F-test is run iff every available normality verdict passes and
  Levene's verdict passes, and that a verdict passes iff its p-value exceeds 0.05. On two
  classes of two results each no verdict is available (so every available one passes) and
  Levene's verdict passes, yet Kruskal-Wallis is run; and the verdict for 5001 values passes
  with no p-value at all.
\<close>

theorem one_way_selection_counterexample:
  "research_question_1 identical_groups_lib df_tiny =
     Inr \<lparr>rq1_rider_classes = [''A'', ''B''],
          rq1_groups = [[Fin 0.1, Fin 0.3], [Fin 0.1, Fin 0.3]],
          rq1_normality_results = [],
          rq1_variance_test =
            \<lparr>vv_test = ''Levene's'', vv_statistic = Fin 0, vv_p_value = Fin 1,
             vv_equal_variances = True, vv_alpha = Fin 0.05\<rparr>,
          rq1_posthoc = NoPosthoc,
          rq1_result = \<lparr>rq1_test = ''Kruskal-Wallis'', rq1_statistic = Fin 0,
                         rq1_p_value = Fin 1, rq1_significant = False\<rparr>\<rparr> \<and>
   test_normality demo_lib (replicate 5001 (Fin 0)) alpha_default =
     Inr (Some \<lparr>nv_test = ''Anderson-Darling'', nv_statistic = Fin 0.3,
                 nv_critical_value = Some (Fin 1.092), nv_p_value = None,
                 nv_is_normal = True, nv_alpha = Fin 0.05\<rparr>)"
  by (simp add: research_question_1_def unique_tiny groups_tiny one_way_analysis_def
        test_normality_def test_variance_homogeneity_def all_normal_of_def
        identical_groups_lib_def demo_lib_def alpha_default_def fgreater_def
        anderson_critical_values_def list_all_iff)

text \<open>
  Claim C1 as amended. Whenever \<^verbatim>\<open>research_question_1\<close> returns: the test is the F-test
  iff at least one class has a normality verdict, every verdict there is passes and
  Levene's verdict passes, and it is Kruskal-Wallis otherwise; the statistic and p-value
  are those of the chosen routine on all groups; the verdicts are exactly those of the
  classes whose check returned one; a verdict with a p-value (Shapiro-Wilk, Levene) passes
  iff the p-value is strictly above 0.05, one without (Anderson-Darling) iff its statistic
  is strictly below its critical value; the result is significant iff its p-value is
  strictly below 0.05; and 0.05 itself is neither above nor below 0.05.
\<close>

theorem one_way_test_selection:
  assumes "research_question_1 lib df = Inr r"
  shows "(rq1_test (rq1_result r) = ''ANOVA'' \<longleftrightarrow>
            rq1_normality_results r \<noteq> [] \<and>
            (\<forall>(c, v) \<in> set (rq1_normality_results r). nv_is_normal v) \<and>
            vv_equal_variances (rq1_variance_test r)) \<and>
         (rq1_test (rq1_result r) = ''ANOVA'' \<or> rq1_test (rq1_result r) = ''Kruskal-Wallis'') \<and>
         (rq1_test (rq1_result r) = ''ANOVA'' \<longrightarrow>
            f_oneway lib (rq1_groups r) =
              Inr (rq1_statistic (rq1_result r), rq1_p_value (rq1_result r))) \<and>
         (rq1_test (rq1_result r) = ''Kruskal-Wallis'' \<longrightarrow>
            kruskal lib (rq1_groups r) =
              Inr (rq1_statistic (rq1_result r), rq1_p_value (rq1_result r))) \<and>
         (\<forall>c v. (c, v) \<in> set (rq1_normality_results r) \<longleftrightarrow>
            (\<exists>g. (c, g) \<in> set (zip (rq1_rider_classes r) (rq1_groups r)) \<and>
                 test_normality lib g alpha_default = Inr (Some v))) \<and>
         (\<forall>(c, v) \<in> set (rq1_normality_results r).
            case nv_p_value v of
              Some p \<Rightarrow> nv_is_normal v = fless (Fin 0.05) p
            | None \<Rightarrow> \<exists>cv. nv_critical_value v = Some cv \<and>
                             nv_is_normal v = fless (nv_statistic v) cv) \<and>
         vv_equal_variances (rq1_variance_test r) =
           fless (Fin 0.05) (vv_p_value (rq1_variance_test r)) \<and>
         rq1_significant (rq1_result r) = fless (rq1_p_value (rq1_result r)) (Fin 0.05) \<and>
         \<not> fless (Fin 0.05) (Fin 0.05)"
proof -
  let ?nr = "rq1_normality_results r" and ?vt = "rq1_variance_test r"
  note owa = research_question_1_fields(3)[OF assms]
  note nl = one_way_analysis_fields(1)[OF owa]
  note tv = one_way_analysis_fields(2)[OF owa]
  let ?par = "all_normal_of ?nr \<and> vv_equal_variances ?vt"
  have branch: "(rq1_test (rq1_result r) = ''ANOVA'' \<longleftrightarrow> ?par)"
    using one_way_analysis_anova(2)[OF owa] one_way_analysis_kruskal(2)[OF owa]
    by (cases ?par) auto
  have sel: "rq1_test (rq1_result r) = ''ANOVA'' \<longleftrightarrow>
            ?nr \<noteq> [] \<and> (\<forall>(c, v) \<in> set ?nr. nv_is_normal v) \<and> vv_equal_variances ?vt"
    using branch by (simp add: all_normal_of_iff)
  have two: "rq1_test (rq1_result r) = ''ANOVA'' \<or> rq1_test (rq1_result r) = ''Kruskal-Wallis''"
    using one_way_analysis_anova(2)[OF owa] one_way_analysis_kruskal(2)[OF owa] by blast
  have f: "rq1_test (rq1_result r) = ''ANOVA'' \<longrightarrow>
            f_oneway lib (rq1_groups r) = Inr (rq1_statistic (rq1_result r), rq1_p_value (rq1_result r))"
    using branch one_way_analysis_anova(1)[OF owa] by blast
  have k: "rq1_test (rq1_result r) = ''Kruskal-Wallis'' \<longrightarrow>
            kruskal lib (rq1_groups r) = Inr (rq1_statistic (rq1_result r), rq1_p_value (rq1_result r))"
    using branch one_way_analysis_kruskal(1)[OF owa] by (cases ?par) auto
  have avail: "\<forall>c v. (c, v) \<in> set ?nr \<longleftrightarrow>
            (\<exists>g. (c, g) \<in> set (zip (rq1_rider_classes r) (rq1_groups r)) \<and>
                 test_normality lib g alpha_default = Inr (Some v))"
    using normality_loop_mem[OF nl] by blast
  have pass: "\<forall>(c, v) \<in> set ?nr.
            case nv_p_value v of
              Some p \<Rightarrow> nv_is_normal v = fless (Fin 0.05) p
            | None \<Rightarrow> \<exists>cv. nv_critical_value v = Some cv \<and>
                             nv_is_normal v = fless (nv_statistic v) cv"
  proof (clarify)
    fix c v assume "(c, v) \<in> set ?nr"
    with avail obtain g where "test_normality lib g alpha_default = Inr (Some v)" by blast
    from test_normality_verdict_cases[OF this, unfolded alpha_default_def]
    show "case nv_p_value v of
              Some p \<Rightarrow> nv_is_normal v = fless (Fin 0.05) p
            | None \<Rightarrow> \<exists>cv. nv_critical_value v = Some cv \<and>
                             nv_is_normal v = fless (nv_statistic v) cv" .
  qed
  have lev: "vv_equal_variances ?vt = fless (Fin 0.05) (vv_p_value ?vt)"
    using tv by (auto simp: tvh_Inr fgreater_def alpha_default_def)
  have sig: "rq1_significant (rq1_result r) = fless (rq1_p_value (rq1_result r)) (Fin 0.05)"
    using one_way_analysis_anova(3)[OF owa] one_way_analysis_kruskal(3)[OF owa] by (cases ?par) auto
  have tie: "\<not> fless (Fin 0.05) (Fin 0.05)" by simp
  show ?thesis
    using sel two f k avail pass lev sig tie by (intro conjI)
qed

theorem one_way_test_selection_witness:
  "research_question_1 demo_lib df_two_small =
     Inr \<lparr>rq1_rider_classes = [''A'', ''B''],
          rq1_groups = [[Fin 1, Fin 3], [Fin 1, Fin 2, Fin 3]],
          rq1_normality_results =
            [(''B'', \<lparr>nv_test = ''Shapiro-Wilk'', nv_statistic = Fin 0.98,
                      nv_critical_value = None, nv_p_value = Some (Fin 0.8),
                      nv_is_normal = True, nv_alpha = Fin 0.05\<rparr>)],
          rq1_variance_test =
            \<lparr>vv_test = ''Levene's'', vv_statistic = Fin 0.6, vv_p_value = Fin 0.5,
             vv_equal_variances = True, vv_alpha = Fin 0.05\<rparr>,
          rq1_posthoc = NoPosthoc,
          rq1_result = \<lparr>rq1_test = ''ANOVA'', rq1_statistic = Fin 0.1,
                         rq1_p_value = Fin 0.9, rq1_significant = False\<rparr>\<rparr> \<and>
   f_oneway demo_lib [[Fin 1, Fin 3], [Fin 1, Fin 2, Fin 3]] = Inr (Fin 0.1, Fin 0.9) \<and>
   fless (Fin 0.05) (Fin 0.8) \<and> fless (Fin 0.05) (Fin 0.5) \<and> \<not> fless (Fin 0.9) (Fin 0.05)"
  using one_way_test_selection [OF rq1_two_small] rq1_two_small
  by simp

text \<open>
  Claim C4 says that each stratum re-executes the full one-way sequence, the post-hoc
  procedure included when the stratum's result is significant. With post-hoc routines that
  raise when called, \<^verbatim>\<open>research_question_2\<close> returns two significant stratum results,
  while \<^verbatim>\<open>research_question_1\<close> on the rows of the flat stratum raises: the strata never
  reach a post-hoc routine.
\<close>

theorem stratum_posthoc_counterexample:
  "research_question_2 posthoc_probe_lib df_strata =
     Inr \<lparr>rq2_stage_results = Some
            [(''flat'', \<lparr>sr_test = ''Kruskal-Wallis'', sr_statistic = Fin 9,
                         sr_p_value = Fin 0.01, sr_significant = True\<rparr>),
             (''mountain'', \<lparr>sr_test = ''Kruskal-Wallis'', sr_statistic = Fin 9,
                             sr_p_value = Fin 0.01, sr_significant = True\<rparr>)],
          rq2_result = \<lparr>interaction_p = Fin 0.01, rider_main_p = Fin 0.002,
                         stage_main_p = Fin 0.2, anova_table_of = demo_table\<rparr>\<rparr> \<and>
   research_question_1 posthoc_probe_lib (filter (\<lambda>ob. stage_class ob = ''flat'') df_strata) =
     Inl (LibraryError ''mannwhitneyu called'')"
  using rq2_strata_probe rq1_flat_probe by (rule conjI)

text \<open>
  Claim C4 as amended. Whenever \<^verbatim>\<open>research_question_2\<close> returns: the strata are analysed
  iff the interaction p-value is strictly below 0.05; then there is one result per distinct
  stage class, in first-appearance order, computed from the rows of that stage class
  grouped by rider class: the F-test iff no available normality verdict of the stratum
  fails and Levene's p-value is strictly above 0.05, Kruskal-Wallis otherwise, significant
  iff the p-value is strictly below 0.05. No post-hoc routine takes part: replacing
  \<^verbatim>\<open>mannwhitneyu\<close> and \<^verbatim>\<open>pairwise_tukeyhsd\<close> by anything leaves the run unchanged.
\<close>

theorem stratified_reanalysis:
  assumes "research_question_2 lib df = Inr r"
  shows "(rq2_stage_results r \<noteq> None \<longleftrightarrow> fless (interaction_p (rq2_result r)) (Fin 0.05)) \<and>
    (\<forall>results. rq2_stage_results r = Some results \<longrightarrow>
       map fst results = unique (map stage_class df) \<and>
       (\<forall>(s, sr) \<in> set results.
          stage_analysis lib df s = Inr sr \<and>
          (\<exists>ls lp. levene lib (stratum_groups df s) = Inr (ls, lp) \<and>
             (sr_test sr = ''ANOVA'' \<longleftrightarrow>
                (\<forall>g \<in> set (stratum_groups df s). \<forall>v.
                   test_normality lib g alpha_default = Inr (Some v) \<longrightarrow> nv_is_normal v) \<and>
                fless (Fin 0.05) lp)) \<and>
          (sr_test sr = ''ANOVA'' \<or> sr_test sr = ''Kruskal-Wallis'') \<and>
          (sr_test sr = ''ANOVA'' \<longrightarrow>
             f_oneway lib (stratum_groups df s) = Inr (sr_statistic sr, sr_p_value sr)) \<and>
          (sr_test sr = ''Kruskal-Wallis'' \<longrightarrow>
             kruskal lib (stratum_groups df s) = Inr (sr_statistic sr, sr_p_value sr)) \<and>
          sr_significant sr = fless (sr_p_value sr) (Fin 0.05))) \<and>
    (\<forall>m t. research_question_2 (lib\<lparr>mannwhitneyu := m, pairwise_tukeyhsd := t\<rparr>) df = Inr r)"
proof (intro conjI allI impI)
  show "rq2_stage_results r \<noteq> None \<longleftrightarrow> fless (interaction_p (rq2_result r)) (Fin 0.05)"
  proof (cases "fless (interaction_p (rq2_result r)) (Fin 0.05)")
    case True
    from research_question_2_Inr(5)[OF assms True] show ?thesis
      using True by (cases "stage_loop lib df (unique (map stage_class df))") (auto dest: sym)
  next
    case False
    from research_question_2_Inr(6)[OF assms False] False show ?thesis by simp
  qed
next
  fix m t
  show "research_question_2 (lib\<lparr>mannwhitneyu := m, pairwise_tukeyhsd := t\<rparr>) df = Inr r"
    using assms by (simp add: research_question_2_posthoc_free)
next
  fix results assume some: "rq2_stage_results r = Some results"
  note loop = stage_loop_Inr[OF research_question_2_stages(2)[OF assms some]]
  show "map fst results = unique (map stage_class df)" using loop by simp
  show "\<forall>(s, sr) \<in> set results.
          stage_analysis lib df s = Inr sr \<and>
          (\<exists>ls lp. levene lib (stratum_groups df s) = Inr (ls, lp) \<and>
             (sr_test sr = ''ANOVA'' \<longleftrightarrow>
                (\<forall>g \<in> set (stratum_groups df s). \<forall>v.
                   test_normality lib g alpha_default = Inr (Some v) \<longrightarrow> nv_is_normal v) \<and>
                fless (Fin 0.05) lp)) \<and>
          (sr_test sr = ''ANOVA'' \<or> sr_test sr = ''Kruskal-Wallis'') \<and>
          (sr_test sr = ''ANOVA'' \<longrightarrow>
             f_oneway lib (stratum_groups df s) = Inr (sr_statistic sr, sr_p_value sr)) \<and>
          (sr_test sr = ''Kruskal-Wallis'' \<longrightarrow>
             kruskal lib (stratum_groups df s) = Inr (sr_statistic sr, sr_p_value sr)) \<and>
          sr_significant sr = fless (sr_p_value sr) (Fin 0.05)"
  proof (clarify)
    fix s sr assume "(s, sr) \<in> set results"
    with loop have sa: "stage_analysis lib df s = Inr sr" by blast
    from stage_analysis_Inr[OF sa] stage_analysis_selection[OF sa] sa
    show "stage_analysis lib df s = Inr sr \<and>
          (\<exists>ls lp. levene lib (stratum_groups df s) = Inr (ls, lp) \<and>
             (sr_test sr = ''ANOVA'' \<longleftrightarrow>
                (\<forall>g \<in> set (stratum_groups df s). \<forall>v.
                   test_normality lib g alpha_default = Inr (Some v) \<longrightarrow> nv_is_normal v) \<and>
                fless (Fin 0.05) lp)) \<and>
          (sr_test sr = ''ANOVA'' \<or> sr_test sr = ''Kruskal-Wallis'') \<and>
          (sr_test sr = ''ANOVA'' \<longrightarrow>
             f_oneway lib (stratum_groups df s) = Inr (sr_statistic sr, sr_p_value sr)) \<and>
          (sr_test sr = ''Kruskal-Wallis'' \<longrightarrow>
             kruskal lib (stratum_groups df s) = Inr (sr_statistic sr, sr_p_value sr)) \<and>
          sr_significant sr = fless (sr_p_value sr) (Fin 0.05)"
      by blast
  qed
qed

theorem stratified_reanalysis_witness:
  "research_question_2 posthoc_probe_lib df_strata =
     Inr \<lparr>rq2_stage_results = Some
            [(''flat'', \<lparr>sr_test = ''Kruskal-Wallis'', sr_statistic = Fin 9,
                         sr_p_value = Fin 0.01, sr_significant = True\<rparr>),
             (''mountain'', \<lparr>sr_test = ''Kruskal-Wallis'', sr_statistic = Fin 9,
                             sr_p_value = Fin 0.01, sr_significant = True\<rparr>)],
          rq2_result = \<lparr>interaction_p = Fin 0.01, rider_main_p = Fin 0.002,
                         stage_main_p = Fin 0.2, anova_table_of = demo_table\<rparr>\<rparr> \<and>
   fless (Fin 0.01) (Fin 0.05) \<and>
   unique (map stage_class df_strata) = [''flat'', ''mountain''] \<and>
   research_question_2 (posthoc_probe_lib\<lparr>mannwhitneyu := mannwhitneyu demo_lib,
                                          pairwise_tukeyhsd := pairwise_tukeyhsd demo_lib\<rparr>) df_strata =
     research_question_2 posthoc_probe_lib df_strata"
  using stratified_reanalysis [OF rq2_strata_probe] rq2_strata_probe
  by (simp add: unique_stages)

text \<open>
  Claim C5. Whenever \<^verbatim>\<open>research_question_2\<close> returns, the table it returns is the one
  \<^verbatim>\<open>anova_lm\<close> computes with \<^verbatim>\<open>typ=2\<close> for the linear model of the fixed formula (both
  factors categorical, with their interaction) fitted on the whole data frame, and the three
  p-values it returns are those of the rows of the interaction and of the two main effects,
  each row holding the F statistic next to its p-value. If the fit raises, so does
  \<^verbatim>\<open>research_question_2\<close>: nothing else is tried. Two library instances with the same
  \<^verbatim>\<open>anova_lm\<close> give the same returned dictionary, whatever their normality, variance and
  one-way routines answer.
\<close>

theorem two_way_always_parametric:
  "(\<forall>r. research_question_2 lib df = Inr r \<longrightarrow>
      anova_lm_ols lib two_way_formula two_way_typ df = Inr (anova_table_of (rq2_result r)) \<and>
      (\<exists>ri rr rs.
         map_of (anova_table_of (rq2_result r)) ''C(rider_class):C(stage_class)'' = Some ri \<and>
         map_of (anova_table_of (rq2_result r)) ''C(rider_class)'' = Some rr \<and>
         map_of (anova_table_of (rq2_result r)) ''C(stage_class)'' = Some rs \<and>
         interaction_p (rq2_result r) = PR_F ri \<and>
         rider_main_p (rq2_result r) = PR_F rr \<and>
         stage_main_p (rq2_result r) = PR_F rs)) \<and>
   (\<forall>e. anova_lm_ols lib two_way_formula two_way_typ df = Inl e \<longrightarrow>
      research_question_2 lib df = Inl e) \<and>
   (\<forall>lib' r r'. anova_lm_ols lib' = anova_lm_ols lib \<and>
      research_question_2 lib df = Inr r \<and> research_question_2 lib' df = Inr r' \<longrightarrow>
      rq2_result r' = rq2_result r) \<and>
   two_way_typ = 2 \<and>
   two_way_formula = ''points ~ C(rider_class) + C(stage_class) + C(rider_class):C(stage_class)''"
proof (intro conjI allI impI)
  fix r assume r: "research_question_2 lib df = Inr r"
  show "anova_lm_ols lib two_way_formula two_way_typ df = Inr (anova_table_of (rq2_result r))"
    by (rule research_question_2_Inr(1)[OF r])
  show "\<exists>ri rr rs.
         map_of (anova_table_of (rq2_result r)) ''C(rider_class):C(stage_class)'' = Some ri \<and>
         map_of (anova_table_of (rq2_result r)) ''C(rider_class)'' = Some rr \<and>
         map_of (anova_table_of (rq2_result r)) ''C(stage_class)'' = Some rs \<and>
         interaction_p (rq2_result r) = PR_F ri \<and>
         rider_main_p (rq2_result r) = PR_F rr \<and>
         stage_main_p (rq2_result r) = PR_F rs"
  proof -
    from research_question_2_Inr(2)[OF r] obtain ri where
      "map_of (anova_table_of (rq2_result r)) ''C(rider_class):C(stage_class)'' = Some ri"
      "interaction_p (rq2_result r) = PR_F ri"
      unfolding loc_PR_Inr by auto
    moreover from research_question_2_Inr(3)[OF r] obtain rr where
      "map_of (anova_table_of (rq2_result r)) ''C(rider_class)'' = Some rr"
      "rider_main_p (rq2_result r) = PR_F rr"
      unfolding loc_PR_Inr by auto
    moreover from research_question_2_Inr(4)[OF r] obtain rs where
      "map_of (anova_table_of (rq2_result r)) ''C(stage_class)'' = Some rs"
      "stage_main_p (rq2_result r) = PR_F rs"
      unfolding loc_PR_Inr by auto
    ultimately show ?thesis by (intro exI conjI)
  qed
next
  fix e assume "anova_lm_ols lib two_way_formula two_way_typ df = Inl e"
  then show "research_question_2 lib df = Inl e"
    by (simp add: research_question_2_def)
next
  fix lib' r r'
  assume a: "anova_lm_ols lib' = anova_lm_ols lib \<and>
      research_question_2 lib df = Inr r \<and> research_question_2 lib' df = Inr r'"
  then have r: "research_question_2 lib df = Inr r" and r': "research_question_2 lib' df = Inr r'"
    and eq: "anova_lm_ols lib' = anova_lm_ols lib" by simp_all
  have t: "anova_table_of (rq2_result r') = anova_table_of (rq2_result r)"
    using research_question_2_Inr(1)[OF r] research_question_2_Inr(1)[OF r'] eq by simp
  have "interaction_p (rq2_result r') = interaction_p (rq2_result r)"
    "rider_main_p (rq2_result r') = rider_main_p (rq2_result r)"
    "stage_main_p (rq2_result r') = stage_main_p (rq2_result r)"
    using research_question_2_Inr(2,3,4)[OF r] research_question_2_Inr(2,3,4)[OF r'] t
    by simp_all
  with t show "rq2_result r' = rq2_result r" by simp
next
  show "two_way_typ = 2" by (simp add: two_way_typ_def)
  show "two_way_formula = ''points ~ C(rider_class) + C(stage_class) + C(rider_class):C(stage_class)''"
    by (simp add: two_way_formula_def)
qed

theorem two_way_always_parametric_witness:
  "research_question_2 demo_lib df_strata =
     Inr \<lparr>rq2_stage_results = Some
            [(''flat'', \<lparr>sr_test = ''ANOVA'', sr_statistic = Fin 0.1, sr_p_value = Fin 0.9,
                         sr_significant = False\<rparr>),
             (''mountain'', \<lparr>sr_test = ''ANOVA'', sr_statistic = Fin 0.1, sr_p_value = Fin 0.9,
                             sr_significant = False\<rparr>)],
          rq2_result = \<lparr>interaction_p = Fin 0.01, rider_main_p = Fin 0.002,
                         stage_main_p = Fin 0.2, anova_table_of = demo_table\<rparr>\<rparr> \<and>
   anova_lm_ols demo_lib two_way_formula two_way_typ df_strata = Inr demo_table \<and>
   anova_lm_ols posthoc_probe_lib = anova_lm_ols demo_lib \<and>
   research_question_2 posthoc_probe_lib df_strata =
     Inr \<lparr>rq2_stage_results = Some
            [(''flat'', \<lparr>sr_test = ''Kruskal-Wallis'', sr_statistic = Fin 9,
                         sr_p_value = Fin 0.01, sr_significant = True\<rparr>),
             (''mountain'', \<lparr>sr_test = ''Kruskal-Wallis'', sr_statistic = Fin 9,
                             sr_p_value = Fin 0.01, sr_significant = True\<rparr>)],
          rq2_result = \<lparr>interaction_p = Fin 0.01, rider_main_p = Fin 0.002,
                         stage_main_p = Fin 0.2, anova_table_of = demo_table\<rparr>\<rparr>"
  using two_way_always_parametric [of demo_lib df_strata] rq2_strata_demo rq2_strata_probe
  by (simp add: posthoc_probe_lib_def unequal_variance_lib_def demo_lib_def)

text \<open>
  Claim C2 says that a group set with a group that has no normality verdict goes to
  Kruskal-Wallis. Class A has two results on the flat stages, so its check returns
  \<^verbatim>\<open>None\<close>; class B passes, Levene's verdict passes, and both
  \<^verbatim>\<open>research_question_1\<close> and the flat stratum of \<^verbatim>\<open>research_question_2\<close> run the
  F-test.
\<close>

theorem unknown_normality_counterexample:
  "test_normality demo_lib [Fin 1, Fin 3] alpha_default = Inr None \<and>
   research_question_1 demo_lib df_two_small =
     Inr \<lparr>rq1_rider_classes = [''A'', ''B''],
          rq1_groups = [[Fin 1, Fin 3], [Fin 1, Fin 2, Fin 3]],
          rq1_normality_results =
            [(''B'', \<lparr>nv_test = ''Shapiro-Wilk'', nv_statistic = Fin 0.98,
                      nv_critical_value = None, nv_p_value = Some (Fin 0.8),
                      nv_is_normal = True, nv_alpha = Fin 0.05\<rparr>)],
          rq1_variance_test =
            \<lparr>vv_test = ''Levene's'', vv_statistic = Fin 0.6, vv_p_value = Fin 0.5,
             vv_equal_variances = True, vv_alpha = Fin 0.05\<rparr>,
          rq1_posthoc = NoPosthoc,
          rq1_result = \<lparr>rq1_test = ''ANOVA'', rq1_statistic = Fin 0.1,
                         rq1_p_value = Fin 0.9, rq1_significant = False\<rparr>\<rparr> \<and>
   stratum_groups df_strata ''flat'' = [[Fin 1, Fin 3], [Fin 1, Fin 2, Fin 3]] \<and>
   research_question_2 demo_lib df_strata =
     Inr \<lparr>rq2_stage_results = Some
            [(''flat'', \<lparr>sr_test = ''ANOVA'', sr_statistic = Fin 0.1, sr_p_value = Fin 0.9,
                         sr_significant = False\<rparr>),
             (''mountain'', \<lparr>sr_test = ''ANOVA'', sr_statistic = Fin 0.1, sr_p_value = Fin 0.9,
                             sr_significant = False\<rparr>)],
          rq2_result = \<lparr>interaction_p = Fin 0.01, rider_main_p = Fin 0.002,
                         stage_main_p = Fin 0.2, anova_table_of = demo_table\<rparr>\<rparr>"
proof -
  have "test_normality demo_lib [Fin 1, Fin 3] alpha_default = Inr None"
    by (simp add: test_normality_def)
  moreover have "stratum_groups df_strata ''flat'' = [[Fin 1, Fin 3], [Fin 1, Fin 2, Fin 3]]"
    by (simp add: stratum_groups_def stratum_classes_def filter_flat unique_two_small groups_two_small)
  ultimately show ?thesis
    using rq1_two_small rq2_strata_demo by simp
qed

text \<open>
  Claim C2 as amended. A group without a normality verdict is left out of the decision.
  \<^verbatim>\<open>research_question_1\<close> runs the F-test iff some group has a verdict, no group has a
  failing verdict and Levene's verdict passes. A stratum of \<^verbatim>\<open>research_question_2\<close> runs
  the F-test iff no group of the stratum has a failing verdict and Levene's p-value is
  strictly above 0.05, also when no group has a verdict at all.
\<close>

theorem unknown_normality_is_skipped:
  "(\<forall>r. research_question_1 lib df = Inr r \<longrightarrow>
      (rq1_test (rq1_result r) = ''ANOVA'' \<longleftrightarrow>
         (\<exists>g \<in> set (rq1_groups r). \<exists>v. test_normality lib g alpha_default = Inr (Some v)) \<and>
         (\<forall>g \<in> set (rq1_groups r). \<forall>v.
            test_normality lib g alpha_default = Inr (Some v) \<longrightarrow> nv_is_normal v) \<and>
         vv_equal_variances (rq1_variance_test r))) \<and>
   (\<forall>r results. research_question_2 lib df = Inr r \<and> rq2_stage_results r = Some results \<longrightarrow>
      (\<forall>(s, sr) \<in> set results.
         \<exists>ls lp. levene lib (stratum_groups df s) = Inr (ls, lp) \<and>
           (sr_test sr = ''ANOVA'' \<longleftrightarrow>
              (\<forall>g \<in> set (stratum_groups df s). \<forall>v.
                 test_normality lib g alpha_default = Inr (Some v) \<longrightarrow> nv_is_normal v) \<and>
              fless (Fin 0.05) lp)))"
proof (intro conjI allI impI)
  fix r assume r: "research_question_1 lib df = Inr r"
  have len: "length (rq1_rider_classes r) = length (rq1_groups r)"
    using research_question_1_fields(1,2)[OF r] by (simp add: length_groups_of)
  show "rq1_test (rq1_result r) = ''ANOVA'' \<longleftrightarrow>
         (\<exists>g \<in> set (rq1_groups r). \<exists>v. test_normality lib g alpha_default = Inr (Some v)) \<and>
         (\<forall>g \<in> set (rq1_groups r). \<forall>v.
            test_normality lib g alpha_default = Inr (Some v) \<longrightarrow> nv_is_normal v) \<and>
         vv_equal_variances (rq1_variance_test r)"
    by (rule one_way_selection_groups[OF research_question_1_fields(3)[OF r] len])
next
  fix r results
  assume a: "research_question_2 lib df = Inr r \<and> rq2_stage_results r = Some results"
  then have loop: "stage_loop lib df (unique (map stage_class df)) = Inr results"
    using research_question_2_stages(2) by blast
  show "\<forall>(s, sr) \<in> set results.
         \<exists>ls lp. levene lib (stratum_groups df s) = Inr (ls, lp) \<and>
           (sr_test sr = ''ANOVA'' \<longleftrightarrow>
              (\<forall>g \<in> set (stratum_groups df s). \<forall>v.
                 test_normality lib g alpha_default = Inr (Some v) \<longrightarrow> nv_is_normal v) \<and>
              fless (Fin 0.05) lp)"
  proof (clarify)
    fix s sr assume "(s, sr) \<in> set results"
    with stage_loop_Inr[OF loop] have "stage_analysis lib df s = Inr sr" by blast
    from stage_analysis_selection[OF this]
    show "\<exists>ls lp. levene lib (stratum_groups df s) = Inr (ls, lp) \<and>
           (sr_test sr = ''ANOVA'' \<longleftrightarrow>
              (\<forall>g \<in> set (stratum_groups df s). \<forall>v.
                 test_normality lib g alpha_default = Inr (Some v) \<longrightarrow> nv_is_normal v) \<and>
              fless (Fin 0.05) lp)" .
  qed
qed

theorem unknown_normality_is_skipped_witness:
  "research_question_1 demo_lib df_two_small =
     Inr \<lparr>rq1_rider_classes = [''A'', ''B''],
          rq1_groups = [[Fin 1, Fin 3], [Fin 1, Fin 2, Fin 3]],
          rq1_normality_results =
            [(''B'', \<lparr>nv_test = ''Shapiro-Wilk'', nv_statistic = Fin 0.98,
                      nv_critical_value = None, nv_p_value = Some (Fin 0.8),
                      nv_is_normal = True, nv_alpha = Fin 0.05\<rparr>)],
          rq1_variance_test =
            \<lparr>vv_test = ''Levene's'', vv_statistic = Fin 0.6, vv_p_value = Fin 0.5,
             vv_equal_variances = True, vv_alpha = Fin 0.05\<rparr>,
          rq1_posthoc = NoPosthoc,
          rq1_result = \<lparr>rq1_test = ''ANOVA'', rq1_statistic = Fin 0.1,
                         rq1_p_value = Fin 0.9, rq1_significant = False\<rparr>\<rparr> \<and>
   test_normality demo_lib [Fin 1, Fin 3] alpha_default = Inr None \<and>
   test_normality demo_lib [Fin 1, Fin 2, Fin 3] alpha_default =
     Inr (Some \<lparr>nv_test = ''Shapiro-Wilk'', nv_statistic = Fin 0.98,
                 nv_critical_value = None, nv_p_value = Some (Fin 0.8),
                 nv_is_normal = True, nv_alpha = Fin 0.05\<rparr>)"
  using unknown_normality_is_skipped [of demo_lib df_two_small] rq1_two_small
  by (simp add: test_normality_def demo_lib_def alpha_default_def fgreater_def)




end
